theory Spec2Isabelle
  imports Main
begin

text \<open>
  A model of the MCP test harness: the transport prober
  (\<^verbatim>\<open>lib/auto-detect-transport.js\<close>), the framework the command line runs
  (\<^verbatim>\<open>MCPTestFrameworkAdvanced\<close>, second version) with its transport factory, connection
  manager, test executor, suite runner, report generator and schema validation, and the
  two functions of the first framework (\<^verbatim>\<open>mcp-test-framework-advanced.js\<close>) that differ
  from it in what is proved here. The protocol client, the network, the scheduler and the
  clock are outside the harness; what they do is an explicit input of each function.
  The definitions come first, the properties after them.
\<close>

section \<open>JavaScript strings\<close>

text \<open>
  Strings are lists of characters, a character being a code unit below 256. The harness
  only ever searches them for ASCII substrings, lower-cases header names and splices them
  into messages.
\<close>

primrec startsWith :: "string \<Rightarrow> string \<Rightarrow> bool" where
  "startsWith [] sub = (sub = [])"
| "startsWith (c # cs) sub = (case sub of [] \<Rightarrow> True | d # ds \<Rightarrow> c = d \<and> startsWith cs ds)"

text \<open>\<^verbatim>\<open>s.includes(sub)\<close>: \<open>sub\<close> occurs in \<open>s\<close> as a contiguous run.\<close>

primrec str_includes :: "string \<Rightarrow> string \<Rightarrow> bool" where
  "str_includes [] sub = (sub = [])"
| "str_includes (c # cs) sub = (startsWith (c # cs) sub \<or> str_includes cs sub)"

section \<open>Transport prober: \<^verbatim>\<open>lib/auto-detect-transport.js\<close>\<close>

text \<open>
  \<^verbatim>\<open>detectTransport(url)\<close> first runs \<^verbatim>\<open>new URL(url)\<close>, which throws a TypeError on a
  string that is not an absolute URL, and otherwise yields the protocol. The parser is
  the platform's; what it makes of the argument is the first input of the model.
\<close>

datatype url_parse = Invalid_URL | Parsed string

text \<open>
  The promise is settled by the first handler that calls \<^verbatim>\<open>resolve\<close>: the response's
  \<^verbatim>\<open>end\<close> (status code, headers, the body collected so far), the response's
  \<^verbatim>\<open>error\<close>, the request's \<^verbatim>\<open>error\<close> (with its message), or the five second timeout.
  Headers are looked up by their lower-case name. Once more than 1024 characters of body
  have arrived the request is destroyed; which of the four events follows is the
  platform's doing.
\<close>

datatype probe_event =
    End int "string \<Rightarrow> string option" string
  | Response_error
  | Request_error string
  | Timeout

record detection =
  transport :: string
  confidence :: nat
  reason :: string

datatype probe_error = TypeError_Invalid_URL | ERR_INVALID_PROTOCOL string

text \<open>The first test of the \<^verbatim>\<open>end\<close> handler, "Check for SSE indicators".\<close>

definition sse_indicators :: "(string \<Rightarrow> string option) \<Rightarrow> string \<Rightarrow> bool" where
  "sse_indicators headers body =
     (let contentType = (case headers ''content-type'' of None \<Rightarrow> '''' | Some v \<Rightarrow> v)
      in headers ''x-mcp-transport'' = Some ''sse''
         \<or> str_includes body ''text/event-stream''
         \<or> str_includes contentType ''text/event-stream'')"

text \<open>The second test, "Check for StreamableHTTP indicators".\<close>

definition streamable_indicators :: "int \<Rightarrow> (string \<Rightarrow> string option) \<Rightarrow> string \<Rightarrow> bool" where
  "streamable_indicators statusCode headers body =
     (headers ''x-mcp-transport'' = Some ''streamablehttp''
      \<or> headers ''x-mcp-transport'' = Some ''streamable-http''
      \<or> (statusCode = 406 \<and> str_includes body ''event-stream''))"

text \<open>
  The \<^verbatim>\<open>end\<close> handler. \<open>error_message\<close> stands for \<^verbatim>\<open>JSON.parse(body).error.message\<close>:
  \<open>None\<close> when the body does not parse or has no such string, in which case the source's
  \<^verbatim>\<open>try\<close> block falls through to the default.
\<close>

definition on_end ::
  "(string \<Rightarrow> string option) \<Rightarrow> int \<Rightarrow> (string \<Rightarrow> string option) \<Rightarrow> string \<Rightarrow> detection" where
  "on_end error_message statusCode headers body =
     (if sse_indicators headers body then
        (if statusCode = 406 \<or> str_includes body ''Not Acceptable'' then
           \<lparr>transport = ''streamableHttp'', confidence = 90,
            reason = ''Server requires event-stream but responds with 406, typical of StreamableHTTP''\<rparr>
         else
           \<lparr>transport = ''sse'', confidence = 80, reason = ''Server indicates SSE support''\<rparr>)
      else if streamable_indicators statusCode headers body then
        \<lparr>transport = ''streamableHttp'', confidence = 95,
         reason = ''Server shows StreamableHTTP characteristics''\<rparr>
      else if str_includes body ''jsonrpc'' \<and> str_includes body ''error''
              \<and> (case error_message body of None \<Rightarrow> False | Some m \<Rightarrow> str_includes m ''event-stream'') then
        \<lparr>transport = ''streamableHttp'', confidence = 85,
         reason = ''JSON-RPC error mentions event-stream''\<rparr>
      else
        \<lparr>transport = ''streamableHttp'', confidence = 50,
         reason = ''HTTP endpoint, assuming StreamableHTTP''\<rparr>)"

text \<open>
  \<^verbatim>\<open>client.request(url, ...)\<close> is called inside the promise executor with \<^verbatim>\<open>https\<close> for
  the protocol \<^verbatim>\<open>https:\<close> and \<^verbatim>\<open>http\<close> for every other one; \<^verbatim>\<open>http.request\<close> throws
  \<^verbatim>\<open>ERR_INVALID_PROTOCOL\<close> for a protocol that is not \<^verbatim>\<open>http:\<close>, and an exception in the
  executor rejects the promise. \<open>Inl\<close> is the rejected promise.
\<close>

definition detectTransport ::
  "(string \<Rightarrow> string option) \<Rightarrow> url_parse \<Rightarrow> probe_event \<Rightarrow> probe_error + detection" where
  "detectTransport error_message url ev =
     (case url of
        Invalid_URL \<Rightarrow> Inl TypeError_Invalid_URL
      | Parsed protocol \<Rightarrow>
          (let isHttps = (protocol = ''https:'') in
           if \<not> isHttps \<and> protocol \<noteq> ''http:'' then Inl (ERR_INVALID_PROTOCOL protocol)
           else
             (case ev of
                End statusCode headers body \<Rightarrow> Inr (on_end error_message statusCode headers body)
              | Response_error \<Rightarrow>
                  Inr \<lparr>transport = ''unknown'', confidence = 0,
                       reason = ''Failed to connect to server''\<rparr>
              | Request_error msg \<Rightarrow>
                  Inr \<lparr>transport = ''unknown'', confidence = 0,
                       reason = ''Connection error: '' @ msg\<rparr>
              | Timeout \<Rightarrow>
                  Inr \<lparr>transport = ''unknown'', confidence = 0,
                       reason = ''Connection timeout''\<rparr>)))"

section \<open>Values, messages and thrown values\<close>

text \<open>
  Numbers spliced into messages by template literals: decimal digits, which is how
  JavaScript prints an integer below \<open>10\<^sup>2\<^sup>1\<close>.
\<close>

definition digit :: "nat \<Rightarrow> char" where
  "digit d = ''0123456789'' ! (d mod 10)"

fun show_nat :: "nat \<Rightarrow> string" where
  "show_nat n = (if n < 10 then [digit n] else show_nat (n div 10) @ [digit (n mod 10)])"

declare show_nat.simps [simp del]

definition show_int :: "int \<Rightarrow> string" where
  "show_int i = (if i < 0 then ''-'' @ show_nat (nat (- i)) else show_nat (nat i))"

text \<open>
  The values that travel through results, error payloads, tool arguments and schemas.
  Numbers are integers (counts and milliseconds). \<open>JFunction\<close> is a built-in function,
  which is what a property inherited from \<^verbatim>\<open>Object.prototype\<close> reads as.
\<close>

datatype jsval =
    JUndefined
  | JNull
  | JBool bool
  | JNum int
  | JStr string
  | JArr "jsval list"
  | JObj "(string \<times> jsval) list"
  | JFunction string

fun join :: "string \<Rightarrow> string list \<Rightarrow> string" where
  "join sep [] = []"
| "join sep [x] = x"
| "join sep (x # y # ys) = x @ sep @ join sep (y # ys)"

text \<open>
  The string a template literal makes of a value. An array joins its elements with
  commas, \<^verbatim>\<open>null\<close> and \<^verbatim>\<open>undefined\<close> elements giving the empty string.
\<close>

fun toString :: "jsval \<Rightarrow> string" where
  "toString JUndefined = ''undefined''"
| "toString JNull = ''null''"
| "toString (JBool b) = (if b then ''true'' else ''false'')"
| "toString (JNum n) = show_int n"
| "toString (JStr s) = s"
| "toString (JArr xs) =
     join '','' (map (\<lambda>x. if x = JUndefined \<or> x = JNull then '''' else toString x) xs)"
| "toString (JObj kvs) = ''[object Object]''"
| "toString (JFunction f) = ''function '' @ f @ ''() { [native code] }''"

text \<open>
  What a \<^verbatim>\<open>catch\<close> clause reads off a caught value: \<^verbatim>\<open>.message\<close>, \<^verbatim>\<open>.code\<close> and
  \<^verbatim>\<open>.details\<close>, each possibly undefined (\<open>None\<close>). The client library rejects with
  Error objects; a test function supplied by the caller may throw any value, and reading
  a property of \<^verbatim>\<open>null\<close> or \<^verbatim>\<open>undefined\<close> is itself a TypeError.
\<close>

record js_error =
  e_name :: string
  e_message :: "string option"
  e_code :: "string option"
  e_details :: "jsval option"

datatype thrown = Thrown_null | Thrown_undefined | Thrown js_error

definition Error :: "string \<Rightarrow> js_error" where
  "Error msg = \<lparr>e_name = ''Error'', e_message = Some msg, e_code = None, e_details = None\<rparr>"

definition TypeError :: "string \<Rightarrow> js_error" where
  "TypeError msg = \<lparr>e_name = ''TypeError'', e_message = Some msg, e_code = None, e_details = None\<rparr>"

definition MCPTestError :: "string \<Rightarrow> string \<Rightarrow> (string \<times> jsval) list \<Rightarrow> js_error" where
  "MCPTestError msg c d =
     \<lparr>e_name = ''MCPTestError'', e_message = Some msg, e_code = Some c, e_details = Some (JObj d)\<rparr>"

definition ConnectionError :: "string \<Rightarrow> string \<Rightarrow> (string \<times> jsval) list \<Rightarrow> js_error" where
  "ConnectionError msg label d =
     (MCPTestError msg ''CONNECTION_ERROR'' ((''transport'', JStr label) # d))
       \<lparr>e_name := ''ConnectionError''\<rparr>"

definition TestTimeoutError :: "string \<Rightarrow> int \<Rightarrow> js_error" where
  "TestTimeoutError testName timeout =
     (MCPTestError (''Test \"'' @ testName @ ''\" timed out after '' @ show_int timeout @ ''ms'')
        ''TEST_TIMEOUT'' [(''testName'', JStr testName), (''timeout'', JNum timeout)])
       \<lparr>e_name := ''TestTimeoutError''\<rparr>"

definition opt_str :: "string option \<Rightarrow> jsval" where
  "opt_str s = (case s of None \<Rightarrow> JUndefined | Some v \<Rightarrow> JStr v)"

section \<open>Transport factory: \<^verbatim>\<open>createTransport\<close>\<close>

text \<open>
  A transport descriptor as the caller writes it: every field may be missing. A string
  field is falsy when it is missing or empty.
\<close>

record transport_config =
  c_type :: "string option"
  c_command :: "string option"
  c_args :: "string list option"
  c_env :: "(string \<times> string) list option"
  c_url :: "string option"
  c_headers :: "(string \<times> string) list option"
  c_auth :: "string option"

datatype transport =
    StdioClientTransport string "string list" "(string \<times> string) list option"
  | SSEClientTransport string "(string \<times> string) list"
  | StreamableHTTPClientTransport string "(string \<times> string) list"

definition falsy :: "string option \<Rightarrow> bool" where
  "falsy s = (s = None \<or> s = Some '''')"

definition or_str :: "string option \<Rightarrow> string \<Rightarrow> string" where
  "or_str s d = (case s of None \<Rightarrow> d | Some v \<Rightarrow> if v = [] then d else v)"

definition or_empty :: "'a list option \<Rightarrow> 'a list" where
  "or_empty xs = (case xs of None \<Rightarrow> [] | Some ys \<Rightarrow> ys)"

definition createTransport :: "transport_config \<Rightarrow> js_error + transport" where
  "createTransport transportConfig =
     (if c_type transportConfig = Some ''stdio'' then
        (case c_command transportConfig of
           None \<Rightarrow> Inl (MCPTestError ''stdio transport requires \"command\" parameter'' ''INVALID_CONFIG'' [])
         | Some command \<Rightarrow>
             if command = '''' then
               Inl (MCPTestError ''stdio transport requires \"command\" parameter'' ''INVALID_CONFIG'' [])
             else Inr (StdioClientTransport command (or_empty (c_args transportConfig))
                         (c_env transportConfig)))
      else if c_type transportConfig = Some ''sse'' then
        (case c_url transportConfig of
           None \<Rightarrow> Inl (MCPTestError ''SSE transport requires \"url\" parameter'' ''INVALID_CONFIG'' [])
         | Some url \<Rightarrow>
             if url = '''' then
               Inl (MCPTestError ''SSE transport requires \"url\" parameter'' ''INVALID_CONFIG'' [])
             else Inr (SSEClientTransport url (or_empty (c_headers transportConfig))))
      else if c_type transportConfig = Some ''streamableHttp'' then
        (case c_url transportConfig of
           None \<Rightarrow>
             Inl (MCPTestError ''streamableHttp transport requires \"url\" parameter'' ''INVALID_CONFIG'' [])
         | Some url \<Rightarrow>
             if url = '''' then
               Inl (MCPTestError ''streamableHttp transport requires \"url\" parameter''
                      ''INVALID_CONFIG'' [])
             else Inr (StreamableHTTPClientTransport url (or_empty (c_headers transportConfig))))
      else
        Inl (MCPTestError (''Unknown transport type: '' @ toString (opt_str (c_type transportConfig)))
               ''INVALID_TRANSPORT'' []))"

section \<open>The framework object\<close>

text \<open>
  The second framework, \<^verbatim>\<open>MCPTestFrameworkAdvanced\<close> of \<^verbatim>\<open>mcp-test-framework-advanced-v2.js\<close>
  (\<^verbatim>\<open>src/unnamed/part_009\<close>), which the command line runs: its options, its counters and
  the suite results it has collected. Fields carry a prefix where records would share a name. \<^verbatim>\<open>log\<close> only
  prints and is left out.
\<close>

record options =
  o_verbose :: bool
  o_timeout :: int
  o_outputDir :: string
  o_retryAttempts :: int
  o_retryDelay :: int
  o_validateSchemas :: bool
  o_toolCall :: int
  o_discovery :: int

record metrics =
  m_startTime :: int
  connectionAttempts :: nat
  totalTestsRun :: nat
  totalAssertions :: nat

record test_result =
  t_name :: string
  t_startTime :: int
  t_status :: string
  t_result :: "jsval option"
  t_error :: "string option"
  t_errorCode :: "string option"
  t_errorDetails :: "jsval option"
  t_duration :: int

record suite_error =
  se_message :: "string option"
  se_code :: "string option"
  se_details :: "jsval option"

record test_metrics =
  tm_totalTests :: nat
  tm_passedTests :: nat
  tm_failedTests :: nat
  tm_avgTestDuration :: int
  tm_slowestTest :: "(string \<times> int) option"
  tm_fastestTest :: "(string \<times> int) option"

record suite_result =
  r_name :: string
  r_transport :: "string option"
  r_config :: transport_config
  r_startTime :: int
  r_tests :: "test_result list"
  r_status :: string
  r_error :: "suite_error option"
  r_endTime :: int
  r_duration :: int
  r_metrics :: test_metrics

record framework =
  options :: options
  results :: "suite_result list"
  metrics :: metrics

text \<open>
  The constructor. \<^verbatim>\<open>options.x || d\<close> takes the default for a missing value and for
  \<^verbatim>\<open>0\<close>, \<^verbatim>\<open>false\<close> and the empty string; \<^verbatim>\<open>validateSchemas\<close> is on unless it is
  \<^verbatim>\<open>false\<close>.
\<close>

record constructor_options =
  co_verbose :: "bool option"
  co_timeout :: "int option"
  co_outputDir :: "string option"
  co_retryAttempts :: "int option"
  co_retryDelay :: "int option"
  co_validateSchemas :: "bool option"
  co_performanceThresholds :: "(int \<times> int) option"

definition or_int :: "int option \<Rightarrow> int \<Rightarrow> int" where
  "or_int v d = (case v of None \<Rightarrow> d | Some n \<Rightarrow> if n = 0 then d else n)"

definition MCPTestFrameworkAdvanced :: "constructor_options \<Rightarrow> int \<Rightarrow> framework" where
  "MCPTestFrameworkAdvanced opts now =
     \<lparr>options =
        \<lparr>o_verbose = (co_verbose opts = Some True),
         o_timeout = or_int (co_timeout opts) 30000,
         o_outputDir = or_str (co_outputDir opts) ''./test-results'',
         o_retryAttempts = or_int (co_retryAttempts opts) 0,
         o_retryDelay = or_int (co_retryDelay opts) 1000,
         o_validateSchemas = (co_validateSchemas opts \<noteq> Some False),
         o_toolCall = (case co_performanceThresholds opts of None \<Rightarrow> 5000 | Some (t, d) \<Rightarrow> t),
         o_discovery = (case co_performanceThresholds opts of None \<Rightarrow> 1000 | Some (t, d) \<Rightarrow> d)\<rparr>,
      results = [],
      metrics = \<lparr>m_startTime = now, connectionAttempts = 0, totalTestsRun = 0,
                 totalAssertions = 0\<rparr>\<rparr>"

section \<open>Connection manager: \<^verbatim>\<open>connectToServer\<close>\<close>

text \<open>
  What the server does with one connection attempt: \<^verbatim>\<open>client.connect\<close> rejects, or it
  resolves and the \<^verbatim>\<open>listTools\<close> call that verifies the connection rejects, or both
  resolve. The attempts are numbered from 0 as the loop variable is; each one makes a
  fresh client, so the number also names the client.
\<close>

datatype attempt = Connect_rejects js_error | Verify_rejects js_error | Answers

definition transportType :: "transport_config \<Rightarrow> string" where
  "transportType transportConfig = or_str (c_type transportConfig) ''stdio''"

definition count_attempt :: "framework \<Rightarrow> framework" where
  "count_attempt fw =
     fw\<lparr>metrics := (metrics fw)\<lparr>connectionAttempts := Suc (connectionAttempts (metrics fw))\<rparr>\<rparr>"

text \<open>
  The \<^verbatim>\<open>try\<close> block of one attempt: build the transport, connect, verify. \<open>Inl\<close> is the
  error its \<^verbatim>\<open>catch\<close> clause receives.
\<close>

definition attempt_body :: "transport_config \<Rightarrow> attempt \<Rightarrow> js_error + transport" where
  "attempt_body transportConfig a =
     (case createTransport transportConfig of
        Inl error \<Rightarrow> Inl error
      | Inr tp \<Rightarrow>
          (case a of
             Connect_rejects error \<Rightarrow> Inl error
           | Verify_rejects verifyError \<Rightarrow>
               Inl (ConnectionError ''Connection established but server not responding correctly''
                      (transportType transportConfig)
                      [(''verifyError'', opt_str (e_message verifyError))])
           | Answers \<Rightarrow> Inr tp))"

function connectToServer_loop ::
  "framework \<Rightarrow> transport_config \<Rightarrow> (nat \<Rightarrow> attempt) \<Rightarrow> nat \<Rightarrow> js_error option
   \<Rightarrow> (js_error + nat \<times> transport) \<times> framework" where
  "connectToServer_loop fw transportConfig server attempt lastError =
     (if int attempt \<le> o_retryAttempts (options fw) then
        (case attempt_body transportConfig (server attempt) of
           Inl error \<Rightarrow>
             connectToServer_loop (count_attempt fw) transportConfig server (Suc attempt) (Some error)
         | Inr tp \<Rightarrow> (Inr (attempt, tp), count_attempt fw))
      else
        (Inl (ConnectionError
                (''Failed to connect after '' @ show_int (o_retryAttempts (options fw) + 1)
                 @ '' attempts'')
                (transportType transportConfig)
                [(''lastError'',
                  (case lastError of None \<Rightarrow> JUndefined | Some e \<Rightarrow> opt_str (e_message e)))]),
         fw))"
  by pat_completeness auto
termination
  by (relation "measure (\<lambda>(fw, c, s, attempt, l). nat (o_retryAttempts (options fw) + 1 - int attempt))")
     (auto simp: count_attempt_def)

declare connectToServer_loop.simps [simp del]

definition connectToServer ::
  "framework \<Rightarrow> transport_config \<Rightarrow> (nat \<Rightarrow> attempt)
   \<Rightarrow> (js_error + nat \<times> transport) \<times> framework" where
  "connectToServer fw transportConfig server =
     connectToServer_loop fw transportConfig server 0 None"

section \<open>Test executor: \<^verbatim>\<open>executeTest\<close>\<close>

text \<open>
  \<^verbatim>\<open>Promise.race([fn(), timeoutPromise])\<close>: the test function fulfils or rejects before
  the timer fires, or it is still pending when the timer fires. Which of the two comes
  first is the scheduler's doing and an input of the model, as are the three readings of
  the clock: \<^verbatim>\<open>Date.now()\<close> on entry, \<^verbatim>\<open>new Date()\<close> for the start stamp, and
  \<^verbatim>\<open>Date.now()\<close> when the race is settled.
\<close>

datatype fn_outcome = Fulfils jsval | Rejects thrown | Pending

record clock =
  started :: int
  stamp :: int
  finished :: int

definition count_test :: "framework \<Rightarrow> framework" where
  "count_test fw =
     fw\<lparr>metrics := (metrics fw)\<lparr>totalTestsRun := Suc (totalTestsRun (metrics fw))\<rparr>\<rparr>"

text \<open>
  The \<^verbatim>\<open>catch\<close> clause of \<^verbatim>\<open>executeTest\<close>. Its first read, \<^verbatim>\<open>error.message\<close>, throws a
  TypeError when the caught value is \<^verbatim>\<open>null\<close> or \<^verbatim>\<open>undefined\<close>; nothing catches that
  one, so it leaves \<^verbatim>\<open>executeTest\<close> (\<open>Inl\<close>).
\<close>

definition catch_clause :: "string \<Rightarrow> clock \<Rightarrow> thrown \<Rightarrow> js_error + test_result" where
  "catch_clause name clk error =
     (case error of
        Thrown_null \<Rightarrow> Inl (TypeError ''Cannot read properties of null (reading 'message')'')
      | Thrown_undefined \<Rightarrow>
          Inl (TypeError ''Cannot read properties of undefined (reading 'message')'')
      | Thrown e \<Rightarrow>
          Inr \<lparr>t_name = name, t_startTime = stamp clk, t_status = ''failed'', t_result = None,
               t_error = e_message e, t_errorCode = e_code e, t_errorDetails = e_details e,
               t_duration = finished clk - started clk\<rparr>)"

definition executeTest ::
  "framework \<Rightarrow> string \<Rightarrow> fn_outcome \<Rightarrow> clock \<Rightarrow> (js_error + test_result) \<times> framework" where
  "executeTest fw name fn clk =
     (let fw' = count_test fw in
      case fn of
        Fulfils v \<Rightarrow>
          (Inr \<lparr>t_name = name, t_startTime = stamp clk, t_status = ''passed'',
                t_result = Some v, t_error = None, t_errorCode = None, t_errorDetails = None,
                t_duration = finished clk - started clk\<rparr>, fw')
      | Rejects error \<Rightarrow> (catch_clause name clk error, fw')
      | Pending \<Rightarrow>
          (catch_clause name clk (Thrown (TestTimeoutError name (o_timeout (options fw)))), fw'))"

section \<open>\<^verbatim>\<open>sanitizeConfig\<close>\<close>

definition toLowerCase_char :: "char \<Rightarrow> char" where
  "toLowerCase_char c =
     (let n = (of_char c :: nat) in
      if (65 \<le> n \<and> n \<le> 90) \<or> (192 \<le> n \<and> n \<le> 222 \<and> n \<noteq> 215) then char_of (n + 32) else c)"

definition toLowerCase :: "string \<Rightarrow> string" where
  "toLowerCase s = map toLowerCase_char s"

text \<open>
  \<^verbatim>\<open>safeHeaders[key] = v\<close> on the fresh object: an assignment to the key \<^verbatim>\<open>__proto__\<close>
  reaches the inherited setter, which ignores a string, so no property appears.
\<close>

definition assign :: "(string \<times> string) list \<Rightarrow> string \<Rightarrow> string \<Rightarrow> (string \<times> string) list" where
  "assign obj key v =
     (if key = ''__proto__'' then obj
      else if key \<in> fst ` set obj then map (\<lambda>(k, w). if k = key then (k, v) else (k, w)) obj
      else obj @ [(key, v)])"

definition sensitive :: "string \<Rightarrow> bool" where
  "sensitive key =
     (str_includes (toLowerCase key) ''auth''
      \<or> str_includes (toLowerCase key) ''token''
      \<or> str_includes (toLowerCase key) ''key'')"

definition safeHeaders :: "(string \<times> string) list \<Rightarrow> (string \<times> string) list" where
  "safeHeaders hs =
     fold (\<lambda>(key, v) acc. if sensitive key then assign acc key ''[REDACTED]'' else assign acc key v)
       hs []"

definition sanitizeConfig :: "transport_config \<Rightarrow> transport_config" where
  "sanitizeConfig config =
     (let sanitized = config;
          sanitized = (case c_headers sanitized of
                         None \<Rightarrow> sanitized
                       | Some hs \<Rightarrow> sanitized\<lparr>c_headers := Some (safeHeaders hs)\<rparr>);
          sanitized = (if falsy (c_auth sanitized) then sanitized
                       else sanitized\<lparr>c_auth := Some ''[REDACTED]''\<rparr>)
      in sanitized)"

text \<open>The same function in the first framework, \<^verbatim>\<open>mcp-test-framework-advanced.js\<close>.\<close>

definition sanitizeConfig_v1 :: "transport_config \<Rightarrow> transport_config" where
  "sanitizeConfig_v1 config =
     (let sanitized = config;
          sanitized = (case c_headers sanitized of
                         None \<Rightarrow> sanitized
                       | Some hs \<Rightarrow>
                           sanitized\<lparr>c_headers :=
                             Some (fold (\<lambda>(key, v) acc.
                                          assign acc key
                                            (if str_includes (toLowerCase key) ''auth'' then ''***''
                                             else v))
                                     hs [])\<rparr>);
          sanitized = (if falsy (c_auth sanitized) then sanitized
                       else sanitized\<lparr>c_auth := Some ''***''\<rparr>)
      in sanitized)"

section \<open>Discovery tests\<close>

text \<open>
  What the client library does with one call: it resolves with a collection, it rejects
  with an Error object, or it has not settled when the test's timer fires.
\<close>

datatype 'a reply = Returns 'a | Throws js_error | No_reply

record resource =
  res_name :: "string option"
  res_uri :: "string option"
  res_mimeType :: "string option"
  res_description :: "string option"

record prompt =
  pr_name :: "string option"
  pr_description :: "string option"
  pr_arguments :: "jsval list option"

text \<open>
  The functions of the tests "List Resources" and "List Prompts" in
  \<^verbatim>\<open>runDiscoveryTests\<close> of the second framework: the call is awaited with no handler
  around it. \<open>ms\<close> is the duration the function measures for the call.
\<close>

definition listResources_fn :: "resource list reply \<Rightarrow> int \<Rightarrow> fn_outcome" where
  "listResources_fn r ms =
     (case r of
        Returns resources \<Rightarrow>
          Fulfils (JObj [(''count'', JNum (int (length resources))),
                         (''duration'', JNum ms),
                         (''resources'',
                          JArr (map (\<lambda>x. JObj [(''name'', opt_str (res_name x)),
                                                (''uri'', opt_str (res_uri x)),
                                                (''mimeType'', opt_str (res_mimeType x))])
                                  (take 10 resources)))])
      | Throws error \<Rightarrow> Rejects (Thrown error)
      | No_reply \<Rightarrow> Pending)"

definition listPrompts_fn :: "prompt list reply \<Rightarrow> int \<Rightarrow> fn_outcome" where
  "listPrompts_fn r ms =
     (case r of
        Returns prompts \<Rightarrow>
          Fulfils (JObj [(''count'', JNum (int (length prompts))),
                         (''duration'', JNum ms),
                         (''prompts'',
                          JArr (map (\<lambda>p. JObj [(''name'', opt_str (pr_name p)),
                                                (''hasDescription'', JBool (\<not> falsy (pr_description p))),
                                                (''argumentCount'',
                                                 JNum (int (length (or_empty (pr_arguments p)))))])
                                  (take 10 prompts)))])
      | Throws error \<Rightarrow> Rejects (Thrown error)
      | No_reply \<Rightarrow> Pending)"

text \<open>
  The same two functions in the first framework, where a \<^verbatim>\<open>catch\<close> turns a rejection
  whose message includes "Method not found" into a count of zero and rethrows any other.
  \<^verbatim>\<open>d?.substring(0, 100) + (d?.length > 100 ? '...' : '')\<close> is the string "undefined" for
  a missing description.
\<close>

definition summary_v1 :: "string option \<Rightarrow> jsval" where
  "summary_v1 d =
     (case d of
        None \<Rightarrow> JStr ''undefined''
      | Some s \<Rightarrow> JStr (take 100 s @ (if length s > 100 then ''...'' else '''')))"

definition method_not_found_v1 :: "(string \<times> jsval) list \<Rightarrow> js_error \<Rightarrow> fn_outcome" where
  "method_not_found_v1 absent error =
     (case e_message error of
        None \<Rightarrow>
          Rejects (Thrown (TypeError ''Cannot read properties of undefined (reading 'includes')''))
      | Some m \<Rightarrow>
          if str_includes m ''Method not found'' then Fulfils (JObj absent)
          else Rejects (Thrown error))"

definition listResources_fn_v1 :: "resource list reply \<Rightarrow> fn_outcome" where
  "listResources_fn_v1 r =
     (case r of
        Returns resources \<Rightarrow>
          Fulfils (JObj [(''count'', JNum (int (length resources))),
                         (''resources'',
                          JArr (map (\<lambda>x. JObj [(''name'', opt_str (res_name x)),
                                                (''description'', summary_v1 (res_description x))])
                                  resources))])
      | Throws error \<Rightarrow>
          method_not_found_v1
            [(''count'', JNum 0), (''resources'', JArr []),
             (''note'', JStr ''Server does not support resources'')] error
      | No_reply \<Rightarrow> Pending)"

definition listPrompts_fn_v1 :: "prompt list reply \<Rightarrow> fn_outcome" where
  "listPrompts_fn_v1 r =
     (case r of
        Returns prompts \<Rightarrow>
          Fulfils (JObj [(''count'', JNum (int (length prompts))),
                         (''prompts'',
                          JArr (map (\<lambda>p. JObj [(''name'', opt_str (pr_name p)),
                                                (''description'', summary_v1 (pr_description p))])
                                  prompts))])
      | Throws error \<Rightarrow>
          method_not_found_v1
            [(''count'', JNum 0), (''prompts'', JArr []),
             (''note'', JStr ''Server does not support prompts'')] error
      | No_reply \<Rightarrow> Pending)"

text \<open>
  \<^verbatim>\<open>executeTest\<close> of the first framework: no counters, no error code, and the timer
  rejects with a plain \<^verbatim>\<open>Error('Test timeout')\<close>.
\<close>

definition executeTest_v1 :: "string \<Rightarrow> fn_outcome \<Rightarrow> clock \<Rightarrow> js_error + test_result" where
  "executeTest_v1 name fn clk =
     (let failed = (\<lambda>m. Inr \<lparr>t_name = name, t_startTime = stamp clk, t_status = ''failed'',
                              t_result = None, t_error = m, t_errorCode = None,
                              t_errorDetails = None, t_duration = finished clk - started clk\<rparr>)
      in case fn of
        Fulfils v \<Rightarrow>
          Inr \<lparr>t_name = name, t_startTime = stamp clk, t_status = ''passed'',
               t_result = Some v, t_error = None, t_errorCode = None, t_errorDetails = None,
               t_duration = finished clk - started clk\<rparr>
      | Rejects Thrown_null \<Rightarrow>
          Inl (TypeError ''Cannot read properties of null (reading 'message')'')
      | Rejects Thrown_undefined \<Rightarrow>
          Inl (TypeError ''Cannot read properties of undefined (reading 'message')'')
      | Rejects (Thrown e) \<Rightarrow> failed (e_message e)
      | Pending \<Rightarrow> failed (Some ''Test timeout''))"

section \<open>Test suite runner: \<^verbatim>\<open>testServer\<close>\<close>

text \<open>
  One call of \<^verbatim>\<open>executeTest\<close> as a phase makes it: the test's name, what its function
  does in the race, the clock, and the number of assertions the function ran (each one
  increments \<^verbatim>\<open>metrics.totalAssertions\<close>; only a tool test has any).
\<close>

record run =
  run_name :: string
  run_fn :: fn_outcome
  run_clock :: clock
  run_assertions :: nat

text \<open>
  Everything outside the harness that one \<^verbatim>\<open>testServer\<close> call meets: the server's
  answers to the connection attempts, the replies to the two discovery calls studied
  here, the outcome of the function of every other built-in test (by test name), the
  clock of each built-in test, whether \<^verbatim>\<open>client.close()\<close> rejects, and the suite's own
  clock readings.
\<close>

record world =
  server :: "nat \<Rightarrow> attempt"
  resources_reply :: "resource list reply"
  prompts_reply :: "prompt list reply"
  call_ms :: "string \<Rightarrow> int"
  outcome :: "string \<Rightarrow> fn_outcome"
  clocks :: "string \<Rightarrow> clock"
  close_rejects :: "js_error option"
  suite_stamp :: int
  suite_end_stamp :: int
  suite_now :: int

definition builtin :: "world \<Rightarrow> string \<Rightarrow> fn_outcome \<Rightarrow> run" where
  "builtin w name fn = \<lparr>run_name = name, run_fn = fn, run_clock = clocks w name, run_assertions = 0\<rparr>"

definition discoveryTests :: "world \<Rightarrow> run list" where
  "discoveryTests w =
     [builtin w ''List Tools'' (outcome w ''List Tools''),
      builtin w ''List Resources'' (listResources_fn (resources_reply w) (call_ms w ''List Resources'')),
      builtin w ''List Prompts'' (listPrompts_fn (prompts_reply w) (call_ms w ''List Prompts''))]"

text \<open>
  \<^verbatim>\<open>runDiscoveryTests\<close> of the first framework: the same three tests, with its own two
  functions, run through its own \<^verbatim>\<open>executeTest\<close>.
\<close>

definition discoveryTests_v1 :: "world \<Rightarrow> run list" where
  "discoveryTests_v1 w =
     [builtin w ''List Tools'' (outcome w ''List Tools''),
      builtin w ''List Resources'' (listResources_fn_v1 (resources_reply w)),
      builtin w ''List Prompts'' (listPrompts_fn_v1 (prompts_reply w))]"

fun run_tests_v1 :: "test_result list \<Rightarrow> run list \<Rightarrow> js_error option \<times> test_result list" where
  "run_tests_v1 collected [] = (None, collected)"
| "run_tests_v1 collected (r # rs) =
     (case executeTest_v1 (run_name r) (run_fn r) (run_clock r) of
        Inl error \<Rightarrow> (Some error, collected)
      | Inr testResult \<Rightarrow> run_tests_v1 (collected @ [testResult]) rs)"

definition runDiscoveryTests_v1 :: "test_result list \<Rightarrow> world \<Rightarrow> js_error option \<times> test_result list" where
  "runDiscoveryTests_v1 collected w = run_tests_v1 collected (discoveryTests_v1 w)"

definition stabilityTests :: "world \<Rightarrow> run list" where
  "stabilityTests w =
     map (\<lambda>n. builtin w n (outcome w n))
       [''Rapid Sequential Requests'', ''Concurrent Requests'', ''Memory Stability'']"

definition complianceTests :: "world \<Rightarrow> run list" where
  "complianceTests w =
     map (\<lambda>n. builtin w n (outcome w n)) [''Valid JSON-RPC responses'', ''Error handling compliance'']"

definition perfTests :: "world \<Rightarrow> run list" where
  "perfTests w =
     map (\<lambda>n. builtin w n (outcome w n)) [''Tool discovery performance'', ''Concurrent request handling'']"

definition errorTests :: "world \<Rightarrow> run list" where
  "errorTests w =
     map (\<lambda>n. builtin w n (outcome w n)) [''Invalid tool name handling'', ''Malformed arguments handling'']"

text \<open>
  A suite as the caller writes it. A custom test is a name and a function, a tool test a
  tool name, arguments and assertions; each is given here by what its function does when
  it is run. \<^verbatim>\<open>runCustomTest\<close> runs a custom test under its own name, and
  \<^verbatim>\<open>runEnhancedToolTest\<close> runs a tool test under \<^verbatim>\<open>Tool Test: \<close> and the tool's name,
  its function counting every assertion it runs.
\<close>

record test_case =
  tc_name :: string
  tc_fn :: fn_outcome
  tc_clock :: clock

record tool_test =
  tt_toolName :: string
  tt_fn :: fn_outcome
  tt_clock :: clock
  tt_assertions :: nat

record tests =
  s_name :: "string option"
  testDiscovery :: "bool option"
  testStability :: "bool option"
  testProtocolCompliance :: bool
  testPerformance :: bool
  testErrorHandling :: bool
  customTests :: "test_case list option"
  toolTests :: "tool_test list option"
  transportTests :: "(string \<times> test_case list) list option"

definition runCustomTest :: "test_case \<Rightarrow> run" where
  "runCustomTest test =
     \<lparr>run_name = tc_name test, run_fn = tc_fn test, run_clock = tc_clock test, run_assertions = 0\<rparr>"

definition runEnhancedToolTest :: "tool_test \<Rightarrow> run" where
  "runEnhancedToolTest toolTest =
     \<lparr>run_name = ''Tool Test: '' @ tt_toolName toolTest, run_fn = tt_fn toolTest,
      run_clock = tt_clock toolTest, run_assertions = tt_assertions toolTest\<rparr>"

text \<open>
  Every phase of \<^verbatim>\<open>testServer\<close> is the same loop over its own tests,
  \<^verbatim>\<open>result.tests.push(await this.executeTest(...))\<close>, and an exception leaves the whole
  \<^verbatim>\<open>try\<close> block. So the block is that loop over the tests of the enabled phases, in the
  order the source runs them. The flags \<^verbatim>\<open>testDiscovery\<close> and \<^verbatim>\<open>testStability\<close> are on
  unless they are \<^verbatim>\<open>false\<close>; the other three are on when they are set.
\<close>

definition suite_runs :: "transport_config \<Rightarrow> tests \<Rightarrow> world \<Rightarrow> run list" where
  "suite_runs transportConfig ts w =
     (if testDiscovery ts \<noteq> Some False then discoveryTests w else [])
     @ (if testStability ts \<noteq> Some False then stabilityTests w else [])
     @ (if testProtocolCompliance ts then complianceTests w else [])
     @ (if testPerformance ts then perfTests w else [])
     @ (if testErrorHandling ts then errorTests w else [])
     @ map runCustomTest (or_empty (customTests ts))
     @ map runEnhancedToolTest (or_empty (toolTests ts))
     @ (case transportTests ts of
          None \<Rightarrow> []
        | Some tt \<Rightarrow>
            map runCustomTest (or_empty (map_of tt (toString (opt_str (c_type transportConfig))))))"

definition count_assertions :: "nat \<Rightarrow> framework \<Rightarrow> framework" where
  "count_assertions n fw =
     fw\<lparr>metrics := (metrics fw)\<lparr>totalAssertions := totalAssertions (metrics fw) + n\<rparr>\<rparr>"

text \<open>
  The loop: the tests collected so far, and the first exception that left
  \<^verbatim>\<open>executeTest\<close>, if any, with which the loop stops.
\<close>

fun run_tests ::
  "framework \<Rightarrow> test_result list \<Rightarrow> run list \<Rightarrow> js_error option \<times> test_result list \<times> framework" where
  "run_tests fw collected [] = (None, collected, fw)"
| "run_tests fw collected (r # rs) =
     (case executeTest (count_assertions (run_assertions r) fw) (run_name r) (run_fn r) (run_clock r) of
        (Inl error, fw') \<Rightarrow> (Some error, collected, fw')
      | (Inr testResult, fw') \<Rightarrow> run_tests fw' (collected @ [testResult]) rs)"

definition runDiscoveryTests ::
  "framework \<Rightarrow> test_result list \<Rightarrow> world \<Rightarrow> js_error option \<times> test_result list \<times> framework" where
  "runDiscoveryTests fw collected w = run_tests fw collected (discoveryTests w)"

definition round_div :: "int \<Rightarrow> int \<Rightarrow> int" where
  "round_div s n = (2 * s + n) div (2 * n)"

definition calculateMetrics :: "test_result list \<Rightarrow> test_metrics" where
  "calculateMetrics ts =
     (let sortedTests = sort_key t_duration ts in
      \<lparr>tm_totalTests = length ts,
       tm_passedTests = length (filter (\<lambda>t. t_status t = ''passed'') ts),
       tm_failedTests = length (filter (\<lambda>t. t_status t = ''failed'') ts),
       tm_avgTestDuration =
         (if ts = [] then 0 else round_div (sum_list (map t_duration ts)) (int (length ts))),
       tm_slowestTest =
         (if sortedTests = [] then None
          else Some (t_name (last sortedTests), t_duration (last sortedTests))),
       tm_fastestTest =
         (if sortedTests = [] then None
          else Some (t_name (hd sortedTests), t_duration (hd sortedTests)))\<rparr>)"

text \<open>
  The end of \<^verbatim>\<open>testServer\<close>: the status and error set by the \<^verbatim>\<open>try\<close> or the \<^verbatim>\<open>catch\<close>
  clause, then the \<^verbatim>\<open>finally\<close> clause, which closes the client if there is one (a
  rejection of \<^verbatim>\<open>close\<close> is only logged), completes the result and pushes it. The third
  component lists the clients on which \<^verbatim>\<open>close()\<close> was called.
\<close>

definition finish ::
  "framework \<Rightarrow> transport_config \<Rightarrow> tests \<Rightarrow> world \<Rightarrow> test_result list \<Rightarrow> js_error option
   \<Rightarrow> nat option \<Rightarrow> suite_result \<times> framework \<times> nat list" where
  "finish fw transportConfig ts w collected error client =
     (let result =
            \<lparr>r_name = or_str (s_name ts) ''MCP Server Test'',
             r_transport = c_type transportConfig,
             r_config = sanitizeConfig transportConfig,
             r_startTime = suite_stamp w,
             r_tests = collected,
             r_status = (if error = None then ''passed'' else ''failed''),
             r_error = map_option (\<lambda>e. \<lparr>se_message = e_message e, se_code = e_code e,
                                          se_details = e_details e\<rparr>) error,
             r_endTime = suite_end_stamp w,
             r_duration = suite_now w - suite_stamp w,
             r_metrics = calculateMetrics collected\<rparr>
      in (result, fw\<lparr>results := results fw @ [result]\<rparr>,
          (case client of None \<Rightarrow> [] | Some c \<Rightarrow> [c])))"

definition testServer ::
  "framework \<Rightarrow> transport_config \<Rightarrow> tests \<Rightarrow> world \<Rightarrow> suite_result \<times> framework \<times> nat list" where
  "testServer fw transportConfig ts w =
     (case connectToServer fw transportConfig (server w) of
        (Inl error, fw') \<Rightarrow> finish fw' transportConfig ts w [] (Some error) None
      | (Inr (client, tp), fw') \<Rightarrow>
          (case run_tests fw' [] (suite_runs transportConfig ts w) of
             (error, collected, fw'') \<Rightarrow>
               finish fw'' transportConfig ts w collected error (Some client)))"

section \<open>Report generator: \<^verbatim>\<open>generateReport\<close>\<close>

record transport_stats =
  ts_total :: nat
  ts_passed :: nat
  ts_failed :: nat

text \<open>
  The names every object inherits from \<^verbatim>\<open>Object.prototype\<close>. Reading one of them from
  an object that has no property of that name gives the inherited value, which is truthy.
\<close>

definition object_prototype :: "string list" where
  "object_prototype =
     [''constructor'', ''__defineGetter__'', ''__defineSetter__'', ''hasOwnProperty'',
      ''__lookupGetter__'', ''__lookupSetter__'', ''isPrototypeOf'', ''propertyIsEnumerable'',
      ''toString'', ''valueOf'', ''__proto__'', ''toLocaleString'']"

text \<open>
  One round of the loop in \<^verbatim>\<open>getTransportSummary\<close>. \<^verbatim>\<open>summary[transport]\<close> for an
  inherited name is truthy, so no entry is made for it and the increments fall on the
  inherited value: the summary's own entries stay as they are.
\<close>

definition tally :: "suite_result \<Rightarrow> transport_stats \<Rightarrow> transport_stats" where
  "tally result s =
     (if r_status result = ''passed''
      then s\<lparr>ts_total := ts_total s + 1, ts_passed := ts_passed s + 1\<rparr>
      else s\<lparr>ts_total := ts_total s + 1, ts_failed := ts_failed s + 1\<rparr>)"

definition summary_step ::
  "suite_result \<Rightarrow> (string \<times> transport_stats) list \<Rightarrow> (string \<times> transport_stats) list" where
  "summary_step result summary =
     (let tkey = toString (opt_str (r_transport result)) in
      case map_of summary tkey of
        Some s \<Rightarrow> map (\<lambda>(k, v). if k = tkey then (k, tally result v) else (k, v)) summary
      | None \<Rightarrow>
          if tkey \<in> set object_prototype then summary
          else summary @ [(tkey, tally result \<lparr>ts_total = 0, ts_passed = 0, ts_failed = 0\<rparr>)])"

definition getTransportSummary :: "framework \<Rightarrow> (string \<times> transport_stats) list" where
  "getTransportSummary fw = fold summary_step (results fw) []"

record summary =
  total :: nat
  passed :: nat
  failed :: nat
  byTransport :: "(string \<times> transport_stats) list"
  totalTests :: nat
  passedTests :: nat
  failedTests :: nat

record report =
  rp_timestamp :: int
  rp_version :: string
  rp_duration :: int
  rp_metrics :: metrics
  rp_summary :: summary
  rp_results :: "suite_result list"

text \<open>
  The report without its recommendations; \<open>stamp\<close> and \<open>now\<close> are the two clock readings.
  Writing the file can fail, which is only logged.
\<close>

definition generateReport :: "framework \<Rightarrow> int \<Rightarrow> int \<Rightarrow> report" where
  "generateReport fw stmp now =
     \<lparr>rp_timestamp = stmp,
      rp_version = ''2.0.0'',
      rp_duration = now - m_startTime (metrics fw),
      rp_metrics = metrics fw,
      rp_summary =
        \<lparr>total = length (results fw),
         passed = length (filter (\<lambda>r. r_status r = ''passed'') (results fw)),
         failed = length (filter (\<lambda>r. r_status r = ''failed'') (results fw)),
         byTransport = getTransportSummary fw,
         totalTests = fold (\<lambda>r acc. acc + length (r_tests r)) (results fw) 0,
         passedTests =
           fold (\<lambda>r acc. acc + length (filter (\<lambda>t. t_status t = ''passed'') (r_tests r)))
             (results fw) 0,
         failedTests =
           fold (\<lambda>r acc. acc + length (filter (\<lambda>t. t_status t = ''failed'') (r_tests r)))
             (results fw) 0\<rparr>,
      rp_results = results fw\<rparr>"

text \<open>The states of a framework object: a fresh one, and what \<^verbatim>\<open>testServer\<close> leaves.\<close>

inductive reachable :: "framework \<Rightarrow> bool" where
  fresh: "reachable (MCPTestFrameworkAdvanced opts now)"
| step: "reachable fw \<Longrightarrow> reachable (fst (snd (testServer fw transportConfig ts w)))"

section \<open>Schema validation: \<^verbatim>\<open>validateAgainstSchema\<close>\<close>

text \<open>
  A tool's input schema: \<^verbatim>\<open>required\<close>, \<^verbatim>\<open>properties\<close> in the order \<^verbatim>\<open>Object.entries\<close>
  lists them, and for each property its \<^verbatim>\<open>enum\<close>, \<^verbatim>\<open>type\<close> and \<^verbatim>\<open>description\<close>. Every
  other keyword, such as nested \<^verbatim>\<open>properties\<close> or \<^verbatim>\<open>items\<close>, is kept in \<open>rest\<close>.
  The arguments are an object, given by its own properties.
\<close>

record prop_schema =
  ps_enum :: "jsval list option"
  ps_type :: "string option"
  ps_description :: "string option"
  ps_rest :: "(string \<times> jsval) list"

record schema =
  sc_required :: "string list option"
  sc_properties :: "(string \<times> prop_schema) list option"
  sc_rest :: "(string \<times> jsval) list"

record validation =
  valid :: bool
  errors :: "string list"
  suggestions :: "string list"

text \<open>
  \<^verbatim>\<open>field in data\<close> holds for an own property and for an inherited one; \<^verbatim>\<open>data[field]\<close>
  reads the own property, else the inherited built-in.
\<close>

definition in_op :: "string \<Rightarrow> (string \<times> jsval) list \<Rightarrow> bool" where
  "in_op field obj = (field \<in> fst ` set obj \<or> field \<in> set object_prototype)"

definition get :: "(string \<times> jsval) list \<Rightarrow> string \<Rightarrow> jsval" where
  "get obj field =
     (case map_of obj field of
        Some v \<Rightarrow> v
      | None \<Rightarrow>
          if field = ''__proto__'' then JObj []
          else if field = ''constructor'' then JFunction ''Object''
          else if field \<in> set object_prototype then JFunction field
          else JUndefined)"

text \<open>
  \<^verbatim>\<open>enum.includes(value)\<close> compares by SameValueZero: primitives by value, and an object
  or array only with itself, which a schema literal never is.
\<close>

fun same_value_zero :: "jsval \<Rightarrow> jsval \<Rightarrow> bool" where
  "same_value_zero JUndefined JUndefined = True"
| "same_value_zero JNull JNull = True"
| "same_value_zero (JBool a) (JBool b) = (a = b)"
| "same_value_zero (JNum a) (JNum b) = (a = b)"
| "same_value_zero (JStr a) (JStr b) = (a = b)"
| "same_value_zero _ _ = False"

definition array_includes :: "jsval list \<Rightarrow> jsval \<Rightarrow> bool" where
  "array_includes xs v = list_ex (\<lambda>x. same_value_zero x v) xs"

definition quoted :: "jsval \<Rightarrow> string" where
  "quoted v = ''\"'' @ toString v @ ''\"''"

definition suggestion :: "string \<Rightarrow> prop_schema \<Rightarrow> string" where
  "suggestion field prop =
     ''Add \"'' @ field @ ''\": ''
     @ (case ps_enum prop of
          Some vs \<Rightarrow> ''one of ['' @ join '', '' (map quoted vs) @ '']''
        | None \<Rightarrow>
            if ps_type prop = Some ''string'' then ''\"your-value\"''
            else if ps_type prop = Some ''number'' then ''123''
            else if ps_type prop = Some ''boolean'' then ''true''
            else ''<'' @ toString (opt_str (ps_type prop)) @ ''>'')
     @ (case ps_description prop of
          None \<Rightarrow> ''''
        | Some d \<Rightarrow> if d = '''' then '''' else '' // '' @ d)"

text \<open>
  One round of the loop over \<^verbatim>\<open>schema.required\<close>. The suggestion is made only under
  \<^verbatim>\<open>schema.properties && schema.properties[field]\<close>; a field that reaches this test is
  not an inherited name, so the lookup is among the declared properties.
\<close>

definition check_required ::
  "(string \<times> jsval) list \<Rightarrow> (string \<times> prop_schema) list option \<Rightarrow> string
   \<Rightarrow> string list \<times> string list \<Rightarrow> string list \<times> string list" where
  "check_required data props field acc =
     (if \<not> in_op field data then
        (fst acc @ [''Missing required field: '' @ field],
         (case props of
            None \<Rightarrow> snd acc
          | Some ps \<Rightarrow>
              (case map_of ps field of
                 None \<Rightarrow> snd acc
               | Some prop \<Rightarrow> snd acc @ [suggestion field prop])))
      else acc)"

text \<open>One round of the loop over \<^verbatim>\<open>Object.entries(schema.properties)\<close>.\<close>

definition check_enum ::
  "(string \<times> jsval) list \<Rightarrow> string \<times> prop_schema
   \<Rightarrow> string list \<times> string list \<Rightarrow> string list \<times> string list" where
  "check_enum data entry acc =
     (case ps_enum (snd entry) of
        None \<Rightarrow> acc
      | Some vs \<Rightarrow>
          if in_op (fst entry) data \<and> \<not> array_includes vs (get data (fst entry)) then
            (fst acc @ [''Invalid value for '' @ fst entry @ '': '' @ quoted (get data (fst entry))],
             snd acc @ [''Use one of: '' @ join '', '' (map quoted vs)])
          else acc)"

definition validateAgainstSchema :: "(string \<times> jsval) list \<Rightarrow> schema \<Rightarrow> validation" where
  "validateAgainstSchema data schema =
     (let acc = (case sc_required schema of
                   None \<Rightarrow> ([], [])
                 | Some required \<Rightarrow>
                     fold (check_required data (sc_properties schema)) required ([], []));
          acc = (case sc_properties schema of
                   None \<Rightarrow> acc
                 | Some ps \<Rightarrow> fold (check_enum data) ps acc)
      in \<lparr>valid = (fst acc = []), errors = fst acc, suggestions = snd acc\<rparr>)"

section \<open>Names used in the statements below\<close>

text \<open>The error the last attempt's \<^verbatim>\<open>catch\<close> clause received, if it received one.\<close>

definition last_caught :: "transport_config \<Rightarrow> (nat \<Rightarrow> attempt) \<Rightarrow> int \<Rightarrow> js_error option" where
  "last_caught cfg srv r =
     (case attempt_body cfg (srv (nat r)) of Inl e \<Rightarrow> Some e | Inr tp \<Rightarrow> None)"

text \<open>Concrete inputs: a constructor call with no options, a descriptor with no fields.\<close>

definition no_options :: constructor_options where
  "no_options =
     \<lparr>co_verbose = None, co_timeout = None, co_outputDir = None, co_retryAttempts = None,
      co_retryDelay = None, co_validateSchemas = None, co_performanceThresholds = None\<rparr>"

definition no_config :: transport_config where
  "no_config =
     \<lparr>c_type = None, c_command = None, c_args = None, c_env = None, c_url = None,
      c_headers = None, c_auth = None\<rparr>"

text \<open>The retry scenario of \<^verbatim>\<open>test-improvements.js\<close>: two retries against a dead port.\<close>

definition retrying_framework :: framework where
  "retrying_framework =
     MCPTestFrameworkAdvanced (no_options\<lparr>co_retryAttempts := Some 2, co_retryDelay := Some 500\<rparr>) 0"

definition unreachable_config :: transport_config where
  "unreachable_config =
     no_config\<lparr>c_type := Some ''streamableHttp'', c_url := Some ''http://localhost:9999/nonexistent''\<rparr>"

text \<open>A suite with nothing set, and a world in which nothing ever answers.\<close>

definition no_tests :: tests where
  "no_tests =
     \<lparr>s_name = None, testDiscovery = None, testStability = None,
      testProtocolCompliance = False, testPerformance = False, testErrorHandling = False,
      customTests = None, toolTests = None, transportTests = None\<rparr>"

definition silent_world :: world where
  "silent_world =
     \<lparr>server = (\<lambda>i. Connect_rejects (Error ''connect ECONNREFUSED'')),
      resources_reply = No_reply, prompts_reply = No_reply,
      call_ms = (\<lambda>n. 0), outcome = (\<lambda>n. Pending),
      clocks = (\<lambda>n. \<lparr>started = 0, stamp = 0, finished = 0\<rparr>),
      close_rejects = None, suite_stamp = 0, suite_end_stamp = 0, suite_now = 0\<rparr>"

definition stdio_without_command :: transport_config where
  "stdio_without_command = no_config\<lparr>c_type := Some ''stdio''\<rparr>"

text \<open>
  What \<^verbatim>\<open>executeTest\<close> makes of a run (it depends on the framework only through the
  configured timeout), and the counters after a list of runs has been executed.
\<close>

definition test_of :: "framework \<Rightarrow> run \<Rightarrow> js_error + test_result" where
  "test_of fw r = fst (executeTest fw (run_name r) (run_fn r) (run_clock r))"

definition ran :: "run list \<Rightarrow> framework \<Rightarrow> framework" where
  "ran rs fw = fold (\<lambda>r f. count_test (count_assertions (run_assertions r) f)) rs fw"

text \<open>A stdio descriptor, a server that answers at once, three custom tests.\<close>

definition default_framework :: framework where
  "default_framework = MCPTestFrameworkAdvanced no_options 0"

definition stdio_config :: transport_config where
  "stdio_config =
     no_config\<lparr>c_type := Some ''stdio'', c_command := Some ''node'', c_args := Some [''./server.js'']\<rparr>"

definition answering_world :: world where
  "answering_world = silent_world\<lparr>server := (\<lambda>i. Answers)\<rparr>"

definition custom_test :: "string \<Rightarrow> fn_outcome \<Rightarrow> test_case" where
  "custom_test name fn =
     \<lparr>tc_name = name, tc_fn = fn, tc_clock = \<lparr>started = 100, stamp = 100, finished = 130\<rparr>\<rparr>"

definition three_custom_tests :: tests where
  "three_custom_tests =
     no_tests\<lparr>testDiscovery := Some False, testStability := Some False,
              customTests := Some [custom_test ''first'' (Fulfils (JBool True)),
                                   custom_test ''second'' (Rejects Thrown_null),
                                   custom_test ''third'' (Fulfils (JBool True))]\<rparr>"

text \<open>A suite result whose status, and the status of each of its tests, is one of the two.\<close>

definition well_formed :: "suite_result \<Rightarrow> bool" where
  "well_formed r =
     ((r_status r = ''passed'' \<or> r_status r = ''failed'')
      \<and> list_all (\<lambda>t. t_status t = ''passed'' \<or> t_status t = ''failed'') (r_tests r))"

text \<open>
  A server with tools but neither resources nor prompts: the two list calls are rejected
  with the protocol's "Method not found" error.
\<close>

definition method_not_found :: js_error where
  "method_not_found = Error ''MCP error -32601: Method not found''"

definition tools_only_world :: world where
  "tools_only_world =
     answering_world\<lparr>resources_reply := Throws method_not_found,
                     prompts_reply := Throws method_not_found,
                     outcome := (\<lambda>n. Fulfils (JObj [(''count'', JNum 2)]))\<rparr>"

text \<open>An event-stream descriptor with an API key header and a bearer token header.\<close>

definition api_key_config :: transport_config where
  "api_key_config =
     no_config\<lparr>c_type := Some ''sse'', c_url := Some ''http://localhost:3000/mcp'',
               c_headers := Some [(''X-API-Key'', ''secret''), (''Authorization'', ''Bearer xyz'')]\<rparr>"




section \<open>Properties of the prober\<close>

lemma detectTransport_http_returns:
  "protocol = ''http:'' \<or> protocol = ''https:'' \<Longrightarrow>
   \<exists>d. detectTransport em (Parsed protocol) ev = Inr d"
  by (cases ev) (auto simp: detectTransport_def)

lemma detectTransport_network_failure:
  assumes "protocol = ''http:'' \<or> protocol = ''https:''"
    and "ev = Response_error \<or> ev = Request_error msg \<or> ev = Timeout"
  shows "\<exists>d. detectTransport em (Parsed protocol) ev = Inr d
             \<and> transport d = ''unknown'' \<and> confidence d = 0 \<and> reason d \<noteq> ''''"
  using assms by (auto simp: detectTransport_def)

text \<open>
  C7. The prober is meant never to raise, and every network failure or timeout does give
  \<open>unknown\<close> with confidence 0 (the two lemmas above). But an argument that is not an
  absolute URL, such as \<^verbatim>\<open>localhost/mcp\<close>, makes \<^verbatim>\<open>new URL\<close> throw, and a URL of another
  scheme, such as \<^verbatim>\<open>ftp://example.com/\<close>, makes \<^verbatim>\<open>http.request\<close> throw: on both the call
  raises instead of returning a detection result, whatever the network does.
\<close>

theorem detectTransport_raises_on_bad_url:
  "detectTransport em Invalid_URL ev = Inl TypeError_Invalid_URL
   \<and> detectTransport em (Parsed ''ftp:'') ev = Inl (ERR_INVALID_PROTOCOL ''ftp:'')"
  by (simp add: detectTransport_def)

text \<open>
  C8. For an http or https URL, a response whose headers or body show the event-stream
  indicators and whose status is 406, or whose body contains "Not Acceptable", is
  classified as streamableHttp with confidence 90; in particular a response with status
  406 whose body mentions "text/event-stream".
\<close>

theorem detectTransport_not_acceptable:
  assumes "protocol = ''http:'' \<or> protocol = ''https:''"
  shows "(sse_indicators headers body
            \<and> (statusCode = 406 \<or> str_includes body ''Not Acceptable'') \<longrightarrow>
          detectTransport em (Parsed protocol) (End statusCode headers body) =
            Inr \<lparr>transport = ''streamableHttp'', confidence = 90,
                 reason = ''Server requires event-stream but responds with 406, typical of StreamableHTTP''\<rparr>)
       \<and> (str_includes body ''text/event-stream'' \<longrightarrow>
          detectTransport em (Parsed protocol) (End 406 headers body) =
            Inr \<lparr>transport = ''streamableHttp'', confidence = 90,
                 reason = ''Server requires event-stream but responds with 406, typical of StreamableHTTP''\<rparr>)"
  using assms by (auto simp: detectTransport_def on_end_def sse_indicators_def)

theorem detectTransport_not_acceptable_witness:
  "sse_indicators (\<lambda>h. None) ''Not Acceptable: Client must accept text/event-stream''
   \<and> detectTransport (\<lambda>b. None) (Parsed ''http:'')
         (End 406 (\<lambda>h. None) ''Not Acceptable: Client must accept text/event-stream'') =
       Inr \<lparr>transport = ''streamableHttp'', confidence = 90,
            reason = ''Server requires event-stream but responds with 406, typical of StreamableHTTP''\<rparr>"
proof -
  have s: "sse_indicators (\<lambda>h. None) ''Not Acceptable: Client must accept text/event-stream''"
    by (simp add: sse_indicators_def)
  have p: "''http:'' = ''http:'' \<or> ''http:'' = ''https:''"
    by simp
  from detectTransport_not_acceptable [OF p, THEN conjunct1, of "\<lambda>h. None"
      "''Not Acceptable: Client must accept text/event-stream''" 406 "\<lambda>b. None"] s
  show ?thesis by simp
qed

section \<open>Properties of the connection manager\<close>

lemma options_count_attempt [simp]: "options (count_attempt fw) = options fw"
  by (simp add: count_attempt_def)

lemma results_count_attempt [simp]: "results (count_attempt fw) = results fw"
  by (simp add: count_attempt_def)

lemma options_count_attempts [simp]: "options ((count_attempt ^^ n) fw) = options fw"
  by (induction n) simp_all

lemma results_count_attempts [simp]: "results ((count_attempt ^^ n) fw) = results fw"
  by (induction n) simp_all

lemma metrics_count_attempts:
  "metrics ((count_attempt ^^ n) fw) =
     (metrics fw)\<lparr>connectionAttempts := connectionAttempts (metrics fw) + n\<rparr>"
  by (induction n) (simp_all add: count_attempt_def)

lemma connectToServer_loop_fails:
  assumes "\<forall>i. attempt \<le> i \<longrightarrow> int i \<le> o_retryAttempts (options fw)
             \<longrightarrow> (\<exists>e. attempt_body cfg (srv i) = Inl e)"
  shows "connectToServer_loop fw cfg srv attempt lastError =
     (Inl (ConnectionError
             (''Failed to connect after '' @ show_int (o_retryAttempts (options fw) + 1) @ '' attempts'')
             (transportType cfg)
             [(''lastError'',
               (case (if int attempt \<le> o_retryAttempts (options fw)
                      then last_caught cfg srv (o_retryAttempts (options fw)) else lastError) of
                  None \<Rightarrow> JUndefined | Some e \<Rightarrow> opt_str (e_message e)))]),
      (count_attempt ^^ nat (o_retryAttempts (options fw) + 1 - int attempt)) fw)"
  using assms
proof (induction fw cfg srv attempt lastError rule: connectToServer_loop.induct)
  case (1 fw cfg srv attempt lastError)
  let ?r = "o_retryAttempts (options fw)"
  show ?case
  proof (cases "int attempt \<le> ?r")
    case False
    then show ?thesis
      by (subst connectToServer_loop.simps) simp
  next
    case True
    with "1.prems" obtain e where e: "attempt_body cfg (srv attempt) = Inl e"
      by blast
    have prems': "\<forall>i. Suc attempt \<le> i \<longrightarrow> int i \<le> o_retryAttempts (options (count_attempt fw))
             \<longrightarrow> (\<exists>e. attempt_body cfg (srv i) = Inl e)"
      using "1.prems" by simp
    have n: "nat (?r + 1 - int attempt) = Suc (nat (?r + 1 - int (Suc attempt)))"
      using True by simp
    have IH: "connectToServer_loop (count_attempt fw) cfg srv (Suc attempt) (Some e) =
     (Inl (ConnectionError
             (''Failed to connect after '' @ show_int (?r + 1) @ '' attempts'')
             (transportType cfg)
             [(''lastError'',
               (case (if int (Suc attempt) \<le> ?r
                      then last_caught cfg srv ?r else Some e) of
                  None \<Rightarrow> JUndefined | Some e \<Rightarrow> opt_str (e_message e)))]),
      (count_attempt ^^ nat (?r + 1 - int (Suc attempt))) (count_attempt fw))"
      using "1.IH"[OF True e prems'] by simp
    have last: "(if int (Suc attempt) \<le> ?r then last_caught cfg srv ?r else Some e)
                = last_caught cfg srv ?r"
    proof (cases "int (Suc attempt) \<le> ?r")
      case True then show ?thesis by simp
    next
      case False
      with True have "nat ?r = attempt" by simp
      with e False show ?thesis by (simp add: last_caught_def)
    qed
    show ?thesis
      apply (subst connectToServer_loop.simps)
      apply (simp only: True if_True e sum.case IH last n funpow_Suc_right o_apply)
      done
  qed
qed


lemma connectionAttempts_count_attempts:
  "connectionAttempts (metrics ((count_attempt ^^ n) fw)) = connectionAttempts (metrics fw) + n"
  by (simp add: metrics_count_attempts)

lemma attempt_body_valid:
  "createTransport cfg = Inr tp \<Longrightarrow> a \<noteq> Answers \<Longrightarrow>
   attempt_body cfg a =
     Inl (case a of
            Connect_rejects e \<Rightarrow> e
          | Verify_rejects v \<Rightarrow>
              ConnectionError ''Connection established but server not responding correctly''
                (transportType cfg) [(''verifyError'', opt_str (e_message v))])"
  by (cases a) (simp_all add: attempt_body_def)

lemma e_message_ConnectionError [simp]: "e_message (ConnectionError m l d) = Some m"
  by (simp add: ConnectionError_def MCPTestError_def)

lemma createTransport_valid_type:
  "createTransport cfg = Inr tp \<Longrightarrow>
   c_type cfg \<in> {Some ''stdio'', Some ''sse'', Some ''streamableHttp''}"
  by (auto simp: createTransport_def split: option.splits if_splits)

text \<open>
  C3, as the code has it. With a retry policy of N = retryAttempts + 1 attempts, N at
  least 1, and a valid descriptor, if the server answers none of the attempts (the connect
  is rejected, or it succeeds and the verifying \<^verbatim>\<open>listTools\<close> is rejected, which the loop
  turns into a connection error and retries like the other), then \<^verbatim>\<open>connectToServer\<close>
  makes exactly N attempts, adds N to \<^verbatim>\<open>metrics.connectionAttempts\<close>, and raises a
  \<^verbatim>\<open>ConnectionError\<close> with the message "Failed to connect after N attempts", the code
  \<^verbatim>\<open>CONNECTION_ERROR\<close> and the details \<^verbatim>\<open>transport\<close>, the descriptor's type, and
  \<^verbatim>\<open>lastError\<close>, the message of the error the last attempt's \<^verbatim>\<open>catch\<close> received: the
  connect error's own message (undefined if it has none) when the connect was rejected,
  and the fixed text "Connection established but server not responding correctly" when
  \<^verbatim>\<open>listTools\<close> was rejected.
\<close>

theorem connectToServer_exhausts_attempts:
  assumes "0 \<le> o_retryAttempts (options fw)"
    and "createTransport cfg = Inr tp"
    and "\<forall>i. int i \<le> o_retryAttempts (options fw) \<longrightarrow> srv i \<noteq> Answers"
  shows "fst (connectToServer fw cfg srv) =
           Inl \<lparr>e_name = ''ConnectionError'',
                e_message = Some (''Failed to connect after ''
                                  @ show_int (o_retryAttempts (options fw) + 1) @ '' attempts''),
                e_code = Some ''CONNECTION_ERROR'',
                e_details =
                  Some (JObj [(''transport'', JStr (the (c_type cfg))),
                              (''lastError'',
                               (case srv (nat (o_retryAttempts (options fw))) of
                                  Connect_rejects e \<Rightarrow>
                                    (case e_message e of None \<Rightarrow> JUndefined | Some m \<Rightarrow> JStr m)
                                | Verify_rejects v \<Rightarrow>
                                    JStr ''Connection established but server not responding correctly''
                                | Answers \<Rightarrow> JUndefined))])\<rparr>
         \<and> c_type cfg \<in> {Some ''stdio'', Some ''sse'', Some ''streamableHttp''}
         \<and> snd (connectToServer fw cfg srv) =
             (count_attempt ^^ nat (o_retryAttempts (options fw) + 1)) fw
         \<and> connectionAttempts (metrics (snd (connectToServer fw cfg srv))) =
             connectionAttempts (metrics fw) + nat (o_retryAttempts (options fw) + 1)"
proof -
  let ?r = "o_retryAttempts (options fw)"
  have all: "\<forall>i. 0 \<le> i \<longrightarrow> int i \<le> ?r \<longrightarrow> (\<exists>e. attempt_body cfg (srv i) = Inl e)"
    using assms(2,3) by (simp add: attempt_body_valid)
  have lastr: "srv (nat ?r) \<noteq> Answers"
    using assms(1,3) by simp
  have ty: "c_type cfg \<in> {Some ''stdio'', Some ''sse'', Some ''streamableHttp''}"
    using assms(2) by (rule createTransport_valid_type)
  then have label: "transportType cfg = the (c_type cfg)"
    by (auto simp: transportType_def or_str_def)
  have "(case last_caught cfg srv ?r of None \<Rightarrow> JUndefined | Some e \<Rightarrow> opt_str (e_message e)) =
        (case srv (nat ?r) of
           Connect_rejects e \<Rightarrow> (case e_message e of None \<Rightarrow> JUndefined | Some m \<Rightarrow> JStr m)
         | Verify_rejects v \<Rightarrow> JStr ''Connection established but server not responding correctly''
         | Answers \<Rightarrow> JUndefined)"
    using lastr assms(2)
    by (cases "srv (nat ?r)") (simp_all add: last_caught_def attempt_body_def opt_str_def)
  with connectToServer_loop_fails[OF all, of None] assms(1)
  have eq: "connectToServer fw cfg srv =
           (Inl (ConnectionError
                   (''Failed to connect after '' @ show_int (?r + 1) @ '' attempts'')
                   (transportType cfg)
                   [(''lastError'',
                     (case srv (nat ?r) of
                        Connect_rejects e \<Rightarrow>
                          (case e_message e of None \<Rightarrow> JUndefined | Some m \<Rightarrow> JStr m)
                      | Verify_rejects v \<Rightarrow>
                          JStr ''Connection established but server not responding correctly''
                      | Answers \<Rightarrow> JUndefined))]),
            (count_attempt ^^ nat (?r + 1)) fw)"
    by (simp add: connectToServer_def)
  have e: "fst (connectToServer fw cfg srv) =
           Inl \<lparr>e_name = ''ConnectionError'',
                e_message = Some (''Failed to connect after '' @ show_int (?r + 1) @ '' attempts''),
                e_code = Some ''CONNECTION_ERROR'',
                e_details =
                  Some (JObj [(''transport'', JStr (the (c_type cfg))),
                              (''lastError'',
                               (case srv (nat ?r) of
                                  Connect_rejects e \<Rightarrow>
                                    (case e_message e of None \<Rightarrow> JUndefined | Some m \<Rightarrow> JStr m)
                                | Verify_rejects v \<Rightarrow>
                                    JStr ''Connection established but server not responding correctly''
                                | Answers \<Rightarrow> JUndefined))])\<rparr>"
    by (simp only: eq fst_conv label ConnectionError_def MCPTestError_def) simp
  have s: "snd (connectToServer fw cfg srv) = (count_attempt ^^ nat (?r + 1)) fw"
    by (simp only: eq snd_conv)
  have n: "connectionAttempts (metrics (snd (connectToServer fw cfg srv))) =
             connectionAttempts (metrics fw) + nat (?r + 1)"
    by (simp only: s connectionAttempts_count_attempts)
  from e ty s n show ?thesis
    by (intro conjI)
qed

lemma show_int_3: "show_int 3 = ''3''"
  by (simp add: show_int_def show_nat.simps digit_def)

lemma retry_options [simp]: "o_retryAttempts (options retrying_framework) = 2"
  by (simp add: retrying_framework_def MCPTestFrameworkAdvanced_def or_int_def no_options_def)

lemma unreachable_transport:
  "createTransport unreachable_config =
     Inr (StreamableHTTPClientTransport ''http://localhost:9999/nonexistent'' [])"
  by (simp add: unreachable_config_def no_config_def createTransport_def or_empty_def)

lemma verify_rejects_caught:
  "createTransport cfg = Inr tp \<Longrightarrow>
   last_caught cfg (\<lambda>i. Verify_rejects v) r =
     Some (ConnectionError ''Connection established but server not responding correctly''
             (transportType cfg) [(''verifyError'', opt_str (e_message v))])"
  by (simp add: last_caught_def attempt_body_def)

text \<open>
  The claim that the raised error carries the last underlying error message fails when
  the last attempt connects and its \<^verbatim>\<open>listTools\<close> is rejected. The loop wraps that
  rejection in a connection error of its own and keeps the rejection's message only in
  the wrapper's \<^verbatim>\<open>details.verifyError\<close>; the error raised after the last attempt reads
  the wrapper's message. With two retries and every \<^verbatim>\<open>listTools\<close> rejected with "socket
  hang up", \<^verbatim>\<open>lastError\<close> is the wrapper's fixed text, and it is the same when the
  rejection says "read ECONNRESET".
\<close>

theorem connectToServer_liveness_counterexample:
  "fst (connectToServer retrying_framework unreachable_config
          (\<lambda>i. Verify_rejects (Error ''socket hang up''))) =
     Inl \<lparr>e_name = ''ConnectionError'',
          e_message = Some ''Failed to connect after 3 attempts'',
          e_code = Some ''CONNECTION_ERROR'',
          e_details =
            Some (JObj [(''transport'', JStr ''streamableHttp''),
                        (''lastError'',
                         JStr ''Connection established but server not responding correctly'')])\<rparr>
   \<and> fst (connectToServer retrying_framework unreachable_config
            (\<lambda>i. Verify_rejects (Error ''socket hang up''))) =
     fst (connectToServer retrying_framework unreachable_config
            (\<lambda>i. Verify_rejects (Error ''read ECONNRESET'')))"
proof -
  have t: "transportType unreachable_config = ''streamableHttp''"
    by (simp add: transportType_def unreachable_config_def no_config_def or_str_def)
  have a: "\<forall>i. 0 \<le> i \<longrightarrow> int i \<le> o_retryAttempts (options retrying_framework) \<longrightarrow>
             (\<exists>e. attempt_body unreachable_config (Verify_rejects v) = Inl e)" for v
    by (simp add: attempt_body_def unreachable_transport)
  have "fst (connectToServer retrying_framework unreachable_config (\<lambda>i. Verify_rejects v)) =
     Inl \<lparr>e_name = ''ConnectionError'',
          e_message = Some ''Failed to connect after 3 attempts'',
          e_code = Some ''CONNECTION_ERROR'',
          e_details =
            Some (JObj [(''transport'', JStr ''streamableHttp''),
                        (''lastError'',
                         JStr ''Connection established but server not responding correctly'')])\<rparr>"
    for v
    using connectToServer_loop_fails [OF a, of v None]
    by (simp add: connectToServer_def verify_rejects_caught [OF unreachable_transport] t show_int_3
          ConnectionError_def MCPTestError_def opt_str_def)
  then show ?thesis
    by simp
qed

theorem connectToServer_exhausts_attempts_witness:
  "0 \<le> o_retryAttempts (options retrying_framework)
   \<and> createTransport unreachable_config =
       Inr (StreamableHTTPClientTransport ''http://localhost:9999/nonexistent'' [])
   \<and> fst (connectToServer retrying_framework unreachable_config
          (\<lambda>i. if i = 2 then Verify_rejects (Error ''no answer'')
                else Connect_rejects (Error ''connect ECONNREFUSED''))) =
     Inl \<lparr>e_name = ''ConnectionError'',
          e_message = Some ''Failed to connect after 3 attempts'',
          e_code = Some ''CONNECTION_ERROR'',
          e_details =
            Some (JObj [(''transport'', JStr ''streamableHttp''),
                        (''lastError'',
                         JStr ''Connection established but server not responding correctly'')])\<rparr>
   \<and> fst (connectToServer retrying_framework unreachable_config
          (\<lambda>i. Connect_rejects (Error ''connect ECONNREFUSED''))) =
     Inl \<lparr>e_name = ''ConnectionError'',
          e_message = Some ''Failed to connect after 3 attempts'',
          e_code = Some ''CONNECTION_ERROR'',
          e_details =
            Some (JObj [(''transport'', JStr ''streamableHttp''),
                        (''lastError'', JStr ''connect ECONNREFUSED'')])\<rparr>
   \<and> connectionAttempts (metrics retrying_framework) = 0
   \<and> connectionAttempts (metrics (snd (connectToServer retrying_framework unreachable_config
          (\<lambda>i. if i = 2 then Verify_rejects (Error ''no answer'')
                else Connect_rejects (Error ''connect ECONNREFUSED''))))) = 3
   \<and> connectionAttempts (metrics (snd (connectToServer retrying_framework unreachable_config
          (\<lambda>i. Connect_rejects (Error ''connect ECONNREFUSED''))))) = 3"
proof -
  let ?srv = "\<lambda>i::nat. if i = 2 then Verify_rejects (Error ''no answer'')
                else Connect_rejects (Error ''connect ECONNREFUSED'')"
  let ?dead = "\<lambda>i::nat. Connect_rejects (Error ''connect ECONNREFUSED'')"
  have c: "connectionAttempts (metrics retrying_framework) = 0"
    by (simp add: retrying_framework_def MCPTestFrameworkAdvanced_def)
  have t: "c_type unreachable_config = Some ''streamableHttp''"
    by (simp add: unreachable_config_def no_config_def)
  have h1: "0 \<le> o_retryAttempts (options retrying_framework)"
    by simp
  have h3: "\<forall>i. int i \<le> o_retryAttempts (options retrying_framework) \<longrightarrow> ?srv i \<noteq> Answers"
    by simp
  have h3': "\<forall>i. int i \<le> o_retryAttempts (options retrying_framework) \<longrightarrow> ?dead i \<noteq> Answers"
    by simp
  note th = connectToServer_exhausts_attempts [OF h1 unreachable_transport h3]
  note th' = connectToServer_exhausts_attempts [OF h1 unreachable_transport h3']
  have eq: "fst (connectToServer retrying_framework unreachable_config ?srv) =
     Inl \<lparr>e_name = ''ConnectionError'',
          e_message = Some ''Failed to connect after 3 attempts'',
          e_code = Some ''CONNECTION_ERROR'',
          e_details =
            Some (JObj [(''transport'', JStr ''streamableHttp''),
                        (''lastError'',
                         JStr ''Connection established but server not responding correctly'')])\<rparr>"
    using th [THEN conjunct1] by (simp add: show_int_3 t)
  have eq': "fst (connectToServer retrying_framework unreachable_config ?dead) =
     Inl \<lparr>e_name = ''ConnectionError'',
          e_message = Some ''Failed to connect after 3 attempts'',
          e_code = Some ''CONNECTION_ERROR'',
          e_details =
            Some (JObj [(''transport'', JStr ''streamableHttp''),
                        (''lastError'', JStr ''connect ECONNREFUSED'')])\<rparr>"
    using th' [THEN conjunct1] by (simp add: show_int_3 t Error_def)
  have n: "connectionAttempts (metrics (snd (connectToServer retrying_framework
                     unreachable_config ?srv))) = 3"
    using th [THEN conjunct2, THEN conjunct2, THEN conjunct2] by (simp add: c)
  have n': "connectionAttempts (metrics (snd (connectToServer retrying_framework
                     unreachable_config ?dead))) = 3"
    using th' [THEN conjunct2, THEN conjunct2, THEN conjunct2] by (simp add: c)
  from h1 unreachable_transport eq eq' c n n' show ?thesis
    by (intro conjI)
qed

section \<open>The end of a suite\<close>

lemma r_status_finish [simp]:
  "r_status (fst (finish fw cfg ts w c err cl)) = (if err = None then ''passed'' else ''failed'')"
  by (simp add: finish_def Let_def)

lemma r_tests_finish [simp]: "r_tests (fst (finish fw cfg ts w c err cl)) = c"
  by (simp add: finish_def Let_def)

lemma r_transport_finish [simp]: "r_transport (fst (finish fw cfg ts w c err cl)) = c_type cfg"
  by (simp add: finish_def Let_def)

lemma r_config_finish [simp]: "r_config (fst (finish fw cfg ts w c err cl)) = sanitizeConfig cfg"
  by (simp add: finish_def Let_def)

lemma r_error_finish [simp]:
  "r_error (fst (finish fw cfg ts w c err cl)) =
     map_option (\<lambda>e. \<lparr>se_message = e_message e, se_code = e_code e, se_details = e_details e\<rparr>) err"
  by (simp add: finish_def Let_def)

lemma closed_finish [simp]:
  "snd (snd (finish fw cfg ts w c err cl)) = (case cl of None \<Rightarrow> [] | Some x \<Rightarrow> [x])"
  by (simp add: finish_def Let_def)

lemma framework_finish:
  "fst (snd (finish fw cfg ts w c err cl)) =
     fw\<lparr>results := results fw @ [fst (finish fw cfg ts w c err cl)]\<rparr>"
  by (simp add: finish_def Let_def)

lemma metrics_finish [simp]: "metrics (fst (snd (finish fw cfg ts w c err cl))) = metrics fw"
  by (simp add: framework_finish)

lemma options_finish [simp]: "options (fst (snd (finish fw cfg ts w c err cl))) = options fw"
  by (simp add: framework_finish)

lemma results_finish [simp]:
  "results (fst (snd (finish fw cfg ts w c err cl))) =
     results fw @ [fst (finish fw cfg ts w c err cl)]"
  by (simp add: framework_finish)

section \<open>Invalid descriptors\<close>

lemma createTransport_invalid:
  assumes "(c_type cfg = Some ''stdio'' \<and> falsy (c_command cfg))
           \<or> (c_type cfg = Some ''sse'' \<and> falsy (c_url cfg))
           \<or> (c_type cfg = Some ''streamableHttp'' \<and> falsy (c_url cfg))
           \<or> c_type cfg \<notin> {Some ''stdio'', Some ''sse'', Some ''streamableHttp''}"
  shows "\<exists>e. createTransport cfg = Inl e
             \<and> e_name e = ''MCPTestError''
             \<and> e_code e = Some (if c_type cfg \<in> {Some ''stdio'', Some ''sse'', Some ''streamableHttp''}
                                then ''INVALID_CONFIG'' else ''INVALID_TRANSPORT'')"
  using assms
  by (auto simp: createTransport_def falsy_def MCPTestError_def split: option.splits)

lemma attempt_body_invalid:
  "createTransport cfg = Inl e \<Longrightarrow> attempt_body cfg a = Inl e"
  by (simp add: attempt_body_def)

lemma testServer_connect_fails:
  assumes "0 \<le> o_retryAttempts (options fw)"
    and "\<forall>i. int i \<le> o_retryAttempts (options fw) \<longrightarrow> attempt_body cfg (server w i) = Inl (err i)"
  shows "testServer fw cfg ts w =
           finish ((count_attempt ^^ nat (o_retryAttempts (options fw) + 1)) fw) cfg ts w []
             (Some (ConnectionError
                (''Failed to connect after '' @ show_int (o_retryAttempts (options fw) + 1) @ '' attempts'')
                (transportType cfg)
                [(''lastError'', opt_str (e_message (err (nat (o_retryAttempts (options fw))))))]))
             None"
proof -
  let ?r = "o_retryAttempts (options fw)"
  have all: "\<forall>i. 0 \<le> i \<longrightarrow> int i \<le> ?r \<longrightarrow> (\<exists>e. attempt_body cfg (server w i) = Inl e)"
    using assms(2) by simp
  have "attempt_body cfg (server w (nat ?r)) = Inl (err (nat ?r))"
    using assms by simp
  then have lc: "last_caught cfg (server w) ?r = Some (err (nat ?r))"
    by (simp add: last_caught_def)
  show ?thesis
    using connectToServer_loop_fails [OF all, of None] assms(1)
    by (simp add: testServer_def connectToServer_def lc)
qed

text \<open>
  C2, as the code has it. A descriptor that lacks its required field (\<^verbatim>\<open>command\<close> for
  stdio, \<^verbatim>\<open>url\<close> for sse and streamableHttp) or carries an unknown tag makes
  \<^verbatim>\<open>createTransport\<close> fail with \<^verbatim>\<open>INVALID_CONFIG\<close> or \<^verbatim>\<open>INVALID_TRANSPORT\<close>. The
  factory is called inside the \<^verbatim>\<open>try\<close> block of the retry loop, so with a retry policy
  of N = retryAttempts + 1 attempts, N at least 1, the failure is caught and retried like
  a failed connect: the counter grows by N, no test runs and no client is closed, and the
  suite fails with a \<^verbatim>\<open>CONNECTION_ERROR\<close> whose \<^verbatim>\<open>details.lastError\<close> is the factory's
  message.
\<close>

theorem invalid_descriptor_retried_and_wrapped:
  assumes "0 \<le> o_retryAttempts (options fw)"
    and "(c_type cfg = Some ''stdio'' \<and> falsy (c_command cfg))
         \<or> (c_type cfg = Some ''sse'' \<and> falsy (c_url cfg))
         \<or> (c_type cfg = Some ''streamableHttp'' \<and> falsy (c_url cfg))
         \<or> c_type cfg \<notin> {Some ''stdio'', Some ''sse'', Some ''streamableHttp''}"
  shows "\<exists>e. createTransport cfg = Inl e
           \<and> e_code e = Some (if c_type cfg \<in> {Some ''stdio'', Some ''sse'', Some ''streamableHttp''}
                              then ''INVALID_CONFIG'' else ''INVALID_TRANSPORT'')
           \<and> r_status (fst (testServer fw cfg ts w)) = ''failed''
           \<and> r_error (fst (testServer fw cfg ts w)) =
               Some \<lparr>se_message = Some (''Failed to connect after ''
                                        @ show_int (o_retryAttempts (options fw) + 1) @ '' attempts''),
                     se_code = Some ''CONNECTION_ERROR'',
                     se_details = Some (JObj [(''transport'', JStr (transportType cfg)),
                                              (''lastError'', opt_str (e_message e))])\<rparr>
           \<and> r_tests (fst (testServer fw cfg ts w)) = []
           \<and> snd (snd (testServer fw cfg ts w)) = []
           \<and> connectionAttempts (metrics (fst (snd (testServer fw cfg ts w)))) =
               connectionAttempts (metrics fw) + nat (o_retryAttempts (options fw) + 1)"
proof -
  from createTransport_invalid [OF assms(2)] obtain e where
    e: "createTransport cfg = Inl e"
    and c: "e_code e = Some (if c_type cfg \<in> {Some ''stdio'', Some ''sse'', Some ''streamableHttp''}
                              then ''INVALID_CONFIG'' else ''INVALID_TRANSPORT'')"
    by blast
  have "\<forall>i. int i \<le> o_retryAttempts (options fw) \<longrightarrow> attempt_body cfg (server w i) = Inl e"
    using e by (simp add: attempt_body_invalid)
  from testServer_connect_fails [OF assms(1), of cfg w "\<lambda>i. e", OF this]
  have t: "testServer fw cfg ts w =
           finish ((count_attempt ^^ nat (o_retryAttempts (options fw) + 1)) fw) cfg ts w []
             (Some (ConnectionError
                (''Failed to connect after '' @ show_int (o_retryAttempts (options fw) + 1) @ '' attempts'')
                (transportType cfg)
                [(''lastError'', opt_str (e_message e))]))
             None" .
  have "r_status (fst (testServer fw cfg ts w)) = ''failed''"
    by (simp add: t)
  moreover have "r_error (fst (testServer fw cfg ts w)) =
               Some \<lparr>se_message = Some (''Failed to connect after ''
                                        @ show_int (o_retryAttempts (options fw) + 1) @ '' attempts''),
                     se_code = Some ''CONNECTION_ERROR'',
                     se_details = Some (JObj [(''transport'', JStr (transportType cfg)),
                                              (''lastError'', opt_str (e_message e))])\<rparr>"
    by (simp add: t ConnectionError_def MCPTestError_def)
  moreover have "r_tests (fst (testServer fw cfg ts w)) = []"
    by (simp add: t)
  moreover have "snd (snd (testServer fw cfg ts w)) = []"
    by (simp add: t)
  moreover have "connectionAttempts (metrics (fst (snd (testServer fw cfg ts w)))) =
               connectionAttempts (metrics fw) + nat (o_retryAttempts (options fw) + 1)"
    by (simp add: t metrics_count_attempts)
  ultimately show ?thesis
    using e c by blast
qed

lemma stdio_without_command_invalid:
  "createTransport stdio_without_command =
     Inl (MCPTestError ''stdio transport requires \"command\" parameter'' ''INVALID_CONFIG'' [])"
  by (simp add: stdio_without_command_def no_config_def createTransport_def)

text \<open>
  The claim as the specification states it fails for a stdio descriptor with no command
  under two retries: the factory's error is \<^verbatim>\<open>INVALID_CONFIG\<close>, yet three attempts are
  counted and the suite's error is a \<^verbatim>\<open>CONNECTION_ERROR\<close>.
\<close>

theorem invalid_descriptor_counterexample:
  "createTransport stdio_without_command =
     Inl (MCPTestError ''stdio transport requires \"command\" parameter'' ''INVALID_CONFIG'' [])
   \<and> connectionAttempts (metrics retrying_framework) = 0
   \<and> connectionAttempts
        (metrics (fst (snd (testServer retrying_framework stdio_without_command no_tests silent_world)))) = 3
   \<and> r_error (fst (testServer retrying_framework stdio_without_command no_tests silent_world)) =
       Some \<lparr>se_message = Some ''Failed to connect after 3 attempts'',
             se_code = Some ''CONNECTION_ERROR'',
             se_details = Some (JObj [(''transport'', JStr ''stdio''),
                                      (''lastError'',
                                       JStr ''stdio transport requires \"command\" parameter'')])\<rparr>"
proof -
  have a: "\<forall>i. int i \<le> o_retryAttempts (options retrying_framework) \<longrightarrow>
             attempt_body stdio_without_command (server silent_world i) =
               Inl (MCPTestError ''stdio transport requires \"command\" parameter'' ''INVALID_CONFIG'' [])"
    by (simp add: attempt_body_invalid stdio_without_command_invalid)
  have r: "0 \<le> o_retryAttempts (options retrying_framework)"
    by simp
  note t = testServer_connect_fails [OF r, of stdio_without_command silent_world _ no_tests, OF a]
  have c: "connectionAttempts (metrics retrying_framework) = 0"
    by (simp add: retrying_framework_def MCPTestFrameworkAdvanced_def)
  have l: "transportType stdio_without_command = ''stdio''"
    by (simp add: transportType_def stdio_without_command_def no_config_def or_str_def)
  show ?thesis
    by (simp add: stdio_without_command_invalid t metrics_count_attempts c l show_int_3
          ConnectionError_def MCPTestError_def opt_str_def)
qed

theorem invalid_descriptor_retried_and_wrapped_witness:
  "0 \<le> o_retryAttempts (options retrying_framework)
   \<and> c_type stdio_without_command = Some ''stdio'' \<and> falsy (c_command stdio_without_command)
   \<and> r_status (fst (testServer retrying_framework stdio_without_command no_tests silent_world)) = ''failed''
   \<and> r_tests (fst (testServer retrying_framework stdio_without_command no_tests silent_world)) = []
   \<and> snd (snd (testServer retrying_framework stdio_without_command no_tests silent_world)) = []"
proof -
  have r: "0 \<le> o_retryAttempts (options retrying_framework)"
    by simp
  have f: "c_type stdio_without_command = Some ''stdio'' \<and> falsy (c_command stdio_without_command)"
    by (simp add: stdio_without_command_def no_config_def falsy_def)
  then have d: "(c_type stdio_without_command = Some ''stdio'' \<and> falsy (c_command stdio_without_command))
         \<or> (c_type stdio_without_command = Some ''sse'' \<and> falsy (c_url stdio_without_command))
         \<or> (c_type stdio_without_command = Some ''streamableHttp'' \<and> falsy (c_url stdio_without_command))
         \<or> c_type stdio_without_command \<notin> {Some ''stdio'', Some ''sse'', Some ''streamableHttp''}"
    by blast
  from invalid_descriptor_retried_and_wrapped [OF r d, of no_tests silent_world] r f
  show ?thesis by blast
qed

section \<open>Properties of the test loop\<close>

lemma options_count_test [simp]: "options (count_test fw) = options fw"
  by (simp add: count_test_def)

lemma results_count_test [simp]: "results (count_test fw) = results fw"
  by (simp add: count_test_def)

lemma options_count_assertions [simp]: "options (count_assertions n fw) = options fw"
  by (simp add: count_assertions_def)

lemma results_count_assertions [simp]: "results (count_assertions n fw) = results fw"
  by (simp add: count_assertions_def)

lemma snd_executeTest [simp]: "snd (executeTest fw name fn clk) = count_test fw"
  by (cases fn) (simp_all add: executeTest_def Let_def)

lemma fst_executeTest_options:
  "options fw = options fw' \<Longrightarrow>
   fst (executeTest fw name fn clk) = fst (executeTest fw' name fn clk)"
  by (cases fn) (simp_all add: executeTest_def Let_def)

lemma test_of_options: "options fw = options fw' \<Longrightarrow> test_of fw r = test_of fw' r"
  unfolding test_of_def by (rule fst_executeTest_options)

lemma options_ran [simp]: "options (ran rs fw) = options fw"
  by (induction rs arbitrary: fw) (simp_all add: ran_def)

lemma results_ran [simp]: "results (ran rs fw) = results fw"
  by (induction rs arbitrary: fw) (simp_all add: ran_def)

lemma totalTestsRun_ran:
  "totalTestsRun (metrics (ran rs fw)) = totalTestsRun (metrics fw) + length rs"
  by (induction rs arbitrary: fw) (simp_all add: ran_def count_test_def count_assertions_def)

lemma connectionAttempts_ran [simp]:
  "connectionAttempts (metrics (ran rs fw)) = connectionAttempts (metrics fw)"
  by (induction rs arbitrary: fw) (simp_all add: ran_def count_test_def count_assertions_def)

lemma ran_append: "ran (xs @ ys) fw = ran ys (ran xs fw)"
  by (simp add: ran_def)

lemma run_tests_step:
  "run_tests fw acc (r # rs) =
     (case test_of fw r of
        Inl e \<Rightarrow> (Some e, acc, ran [r] fw)
      | Inr t \<Rightarrow> run_tests (ran [r] fw) (acc @ [t]) rs)"
proof -
  have "fst (executeTest (count_assertions (run_assertions r) fw) (run_name r) (run_fn r) (run_clock r))
        = test_of fw r"
    unfolding test_of_def by (rule fst_executeTest_options) simp
  then have "executeTest (count_assertions (run_assertions r) fw) (run_name r) (run_fn r) (run_clock r) =
        (test_of fw r, ran [r] fw)"
    by (simp add: prod_eq_iff ran_def)
  then show ?thesis
    by (simp split: sum.splits)
qed

lemma run_tests_all_return:
  "\<forall>x \<in> set rs. \<exists>t. test_of fw x = Inr t \<Longrightarrow>
   \<exists>ts. run_tests fw acc rs = (None, acc @ ts, ran rs fw) \<and> map Inr ts = map (test_of fw) rs"
proof (induction rs arbitrary: fw acc)
  case Nil
  then show ?case by (simp add: ran_def)
next
  case (Cons r rs)
  then obtain t where t: "test_of fw r = Inr t" by auto
  have "\<forall>x \<in> set rs. \<exists>t. test_of (ran [r] fw) x = Inr t"
    using Cons.prems by (simp add: test_of_options [of "ran [r] fw" fw])
  from Cons.IH [OF this, of "acc @ [t]"] obtain ts where
    ts: "run_tests (ran [r] fw) (acc @ [t]) rs = (None, (acc @ [t]) @ ts, ran rs (ran [r] fw))"
    and m: "map Inr ts = map (test_of (ran [r] fw)) rs"
    by blast
  have "map Inr (t # ts) = map (test_of fw) (r # rs)"
    using m t by (simp add: test_of_options [of "ran [r] fw" fw])
  moreover have "run_tests fw acc (r # rs) = (None, acc @ (t # ts), ran (r # rs) fw)"
    using ts t by (simp only: run_tests_step sum.case) (simp add: ran_def)
  ultimately show ?case by blast
qed

lemma run_tests_append:
  "run_tests fw acc (xs @ ys) =
     (case run_tests fw acc xs of
        (None, acc', fw') \<Rightarrow> run_tests fw' acc' ys
      | (Some e, acc', fw') \<Rightarrow> (Some e, acc', fw'))"
proof (induction xs arbitrary: fw acc)
  case Nil
  then show ?case by simp
next
  case (Cons x xs)
  show ?case
    by (cases "test_of fw x") (simp_all only: append_Cons run_tests_step sum.case Cons.IH prod.case option.case)
qed

lemma run_tests_aborts:
  assumes "\<forall>x \<in> set pre. \<exists>t. test_of fw x = Inr t" and "test_of fw r = Inl e"
  shows "\<exists>ts. run_tests fw [] (pre @ r # post) = (Some e, ts, ran (pre @ [r]) fw)
              \<and> map Inr ts = map (test_of fw) pre"
proof -
  from run_tests_all_return [OF assms(1), of "[]"] obtain ts where
    ts: "run_tests fw [] pre = (None, ts, ran pre fw)" and m: "map Inr ts = map (test_of fw) pre"
    by auto
  have "test_of (ran pre fw) r = Inl e"
    using assms(2) by (simp add: test_of_options [of "ran pre fw" fw])
  then have "run_tests (ran pre fw) ts (r # post) = (Some e, ts, ran [r] (ran pre fw))"
    by (simp only: run_tests_step sum.case)
  then have "run_tests fw [] (pre @ r # post) = (Some e, ts, ran (pre @ [r]) fw)"
    by (simp add: run_tests_append ts ran_append)
  with m show ?thesis by blast
qed

section \<open>Properties of the test executor\<close>

lemma executeTest_timeout:
  "executeTest fw name Pending clk =
     (Inr \<lparr>t_name = name, t_startTime = stamp clk, t_status = ''failed'', t_result = None,
           t_error = Some (''Test \"'' @ name @ ''\" timed out after '' @ show_int (o_timeout (options fw)) @ ''ms''),
           t_errorCode = Some ''TEST_TIMEOUT'',
           t_errorDetails = Some (JObj [(''testName'', JStr name), (''timeout'', JNum (o_timeout (options fw)))]),
           t_duration = finished clk - started clk\<rparr>,
      count_test fw)"
  by (simp add: executeTest_def catch_clause_def TestTimeoutError_def MCPTestError_def)

lemma executeTest_returns:
  assumes "fn \<noteq> Rejects Thrown_null" and "fn \<noteq> Rejects Thrown_undefined"
  shows "\<exists>t. fst (executeTest fw name fn clk) = Inr t
             \<and> t_name t = name
             \<and> t_duration t = finished clk - started clk
             \<and> (t_status t = ''passed'' \<or> t_status t = ''failed'')
             \<and> (t_status t = ''passed'' \<longleftrightarrow> (\<exists>v. fn = Fulfils v))"
proof (cases fn)
  case (Fulfils v)
  then show ?thesis by (simp add: executeTest_def)
next
  case (Rejects th)
  with assms show ?thesis
    by (cases th) (simp_all add: executeTest_def catch_clause_def)
next
  case Pending
  then show ?thesis by (simp add: executeTest_timeout)
qed

lemma executeTest_status:
  assumes "fst (executeTest fw name fn clk) = Inr t"
  shows "t_status t = ''passed'' \<or> t_status t = ''failed''"
proof (cases fn)
  case (Fulfils v)
  with assms show ?thesis by (auto simp: executeTest_def)
next
  case (Rejects th)
  with assms show ?thesis
    by (cases th) (auto simp: executeTest_def catch_clause_def)
next
  case Pending
  with assms show ?thesis by (auto simp: executeTest_timeout)
qed

text \<open>
  C5. A test whose function is still pending when the timer fires is recorded as failed
  with the \<^verbatim>\<open>TEST_TIMEOUT\<close> error that carries its name and the configured timeout, and
  every test function that fulfils, or rejects with anything but \<^verbatim>\<open>null\<close> or
  \<^verbatim>\<open>undefined\<close>, gives a test result with its duration (the two lemmas above). The claim
  that \<^verbatim>\<open>executeTest\<close> always returns a test result fails for a test function that
  rejects with \<^verbatim>\<open>null\<close> or \<^verbatim>\<open>undefined\<close>: the \<^verbatim>\<open>catch\<close> clause reads
  \<^verbatim>\<open>error.message\<close>, which throws a TypeError that leaves \<^verbatim>\<open>executeTest\<close>.
\<close>

theorem executeTest_nullish_rejection_escapes:
  "fst (executeTest fw name (Rejects Thrown_null) clk) =
     Inl (TypeError ''Cannot read properties of null (reading 'message')'')
   \<and> fst (executeTest fw name (Rejects Thrown_undefined) clk) =
     Inl (TypeError ''Cannot read properties of undefined (reading 'message')'')"
  by (simp add: executeTest_def catch_clause_def)

section \<open>Properties of the suite runner\<close>

lemma connectToServer_loop_keeps:
  "options (snd (connectToServer_loop fw cfg srv a l)) = options fw
   \<and> results (snd (connectToServer_loop fw cfg srv a l)) = results fw
   \<and> totalTestsRun (metrics (snd (connectToServer_loop fw cfg srv a l))) = totalTestsRun (metrics fw)
   \<and> totalAssertions (metrics (snd (connectToServer_loop fw cfg srv a l))) = totalAssertions (metrics fw)"
proof (induction fw cfg srv a l rule: connectToServer_loop.induct)
  case (1 fw cfg srv a l)
  show ?case
  proof (cases "int a \<le> o_retryAttempts (options fw)")
    case False
    then show ?thesis by (subst (1 2 3 4) connectToServer_loop.simps) simp
  next
    case True
    show ?thesis
    proof (cases "attempt_body cfg (srv a)")
      case (Inl e)
      with True "1.IH" [OF True Inl] show ?thesis
        by (subst (1 2 3 4) connectToServer_loop.simps) (simp add: count_attempt_def)
    next
      case (Inr tp)
      with True show ?thesis
        by (subst (1 2 3 4) connectToServer_loop.simps) (simp add: count_attempt_def)
    qed
  qed
qed

lemma connectToServer_keeps:
  assumes "connectToServer fw cfg srv = (x, fw1)"
  shows "options fw1 = options fw" and "results fw1 = results fw"
    and "totalTestsRun (metrics fw1) = totalTestsRun (metrics fw)"
  using connectToServer_loop_keeps [of fw cfg srv 0 None] assms
  by (simp_all add: connectToServer_def)

lemma testServer_connected:
  assumes "connectToServer fw cfg (server w) = (Inr (client, tp), fw1)"
    and "run_tests fw1 [] (suite_runs cfg ts w) = (err, collected, fw2)"
  shows "testServer fw cfg ts w = finish fw2 cfg ts w collected err (Some client)"
  using assms by (simp add: testServer_def)

lemma testServer_refused:
  assumes "connectToServer fw cfg (server w) = (Inl e, fw1)"
  shows "snd (snd (testServer fw cfg ts w)) = []"
    and "r_status (fst (testServer fw cfg ts w)) = ''failed''"
    and "r_tests (fst (testServer fw cfg ts w)) = []"
  using assms by (simp_all add: testServer_def)

lemma testServer_all_return:
  assumes "connectToServer fw cfg (server w) = (Inr (client, tp), fw1)"
    and "\<forall>x \<in> set (suite_runs cfg ts w). \<exists>t. test_of fw x = Inr t"
  shows "r_status (fst (testServer fw cfg ts w)) = ''passed''"
    and "map Inr (r_tests (fst (testServer fw cfg ts w))) = map (test_of fw) (suite_runs cfg ts w)"
proof -
  have o: "options fw1 = options fw"
    using connectToServer_keeps(1) [OF assms(1)] .
  have "\<forall>x \<in> set (suite_runs cfg ts w). \<exists>t. test_of fw1 x = Inr t"
    using assms(2) by (simp add: test_of_options [OF o])
  from run_tests_all_return [OF this, of "[]"] obtain collected where
    rt: "run_tests fw1 [] (suite_runs cfg ts w) = (None, collected, ran (suite_runs cfg ts w) fw1)"
    and m: "map Inr collected = map (test_of fw1) (suite_runs cfg ts w)"
    by auto
  note t = testServer_connected [OF assms(1) rt]
  show "r_status (fst (testServer fw cfg ts w)) = ''passed''"
    by (simp add: t)
  show "map Inr (r_tests (fst (testServer fw cfg ts w))) = map (test_of fw) (suite_runs cfg ts w)"
    using m by (simp add: t test_of_options [OF o])
qed

text \<open>
  C6. When \<^verbatim>\<open>connectToServer\<close> has returned a client, \<^verbatim>\<open>testServer\<close> calls
  \<^verbatim>\<open>close()\<close> on that client exactly once, whatever the tests do. And when a test's
  \<^verbatim>\<open>executeTest\<close> raises, after the tests before it (in the order of the phases) have
  returned results, then no later test is executed, the suite's status is \<^verbatim>\<open>failed\<close>
  with that error, and its list of tests is the results collected until then, in order.
\<close>

theorem testServer_closes_once_and_aborts:
  assumes "connectToServer fw cfg (server w) = (Inr (client, tp), fw1)"
  shows "snd (snd (testServer fw cfg ts w)) = [client]
       \<and> (\<forall>pre r post e.
             suite_runs cfg ts w = pre @ r # post
             \<longrightarrow> (\<forall>x \<in> set pre. \<exists>t. test_of fw x = Inr t)
             \<longrightarrow> test_of fw r = Inl e
             \<longrightarrow> r_status (fst (testServer fw cfg ts w)) = ''failed''
                 \<and> r_error (fst (testServer fw cfg ts w)) =
                     Some \<lparr>se_message = e_message e, se_code = e_code e, se_details = e_details e\<rparr>
                 \<and> map Inr (r_tests (fst (testServer fw cfg ts w))) = map (test_of fw) pre
                 \<and> totalTestsRun (metrics (fst (snd (testServer fw cfg ts w)))) =
                     totalTestsRun (metrics fw) + length pre + 1)"
proof (intro conjI allI impI)
  obtain err collected fw2 where
    rt: "run_tests fw1 [] (suite_runs cfg ts w) = (err, collected, fw2)"
    by (cases "run_tests fw1 [] (suite_runs cfg ts w)") auto
  show "snd (snd (testServer fw cfg ts w)) = [client]"
    by (simp add: testServer_connected [OF assms rt])
next
  fix pre r post e
  assume runs: "suite_runs cfg ts w = pre @ r # post"
    and pre: "\<forall>x \<in> set pre. \<exists>t. test_of fw x = Inr t"
    and r: "test_of fw r = Inl e"
  have o: "options fw1 = options fw"
    using connectToServer_keeps(1) [OF assms] .
  have pre1: "\<forall>x \<in> set pre. \<exists>t. test_of fw1 x = Inr t"
    using pre by (simp add: test_of_options [OF o])
  have r1: "test_of fw1 r = Inl e"
    using r by (simp add: test_of_options [OF o])
  from run_tests_aborts [OF pre1 r1, of post] obtain collected where
    rt: "run_tests fw1 [] (suite_runs cfg ts w) = (Some e, collected, ran (pre @ [r]) fw1)"
    and m: "map Inr collected = map (test_of fw1) pre"
    using runs by auto
  note t = testServer_connected [OF assms rt]
  show "r_status (fst (testServer fw cfg ts w)) = ''failed''"
    by (simp add: t)
  show "r_error (fst (testServer fw cfg ts w)) =
          Some \<lparr>se_message = e_message e, se_code = e_code e, se_details = e_details e\<rparr>"
    by (simp add: t)
  show "map Inr (r_tests (fst (testServer fw cfg ts w))) = map (test_of fw) pre"
    using m by (simp add: t test_of_options [OF o])
  show "totalTestsRun (metrics (fst (snd (testServer fw cfg ts w)))) =
          totalTestsRun (metrics fw) + length pre + 1"
    by (simp add: t totalTestsRun_ran connectToServer_keeps(3) [OF assms])
qed


lemma connect_stdio_answering:
  "connectToServer default_framework stdio_config (server answering_world) =
     (Inr (0, StdioClientTransport ''node'' [''./server.js''] None), count_attempt default_framework)"
  by (subst connectToServer_def, subst connectToServer_loop.simps)
     (simp add: default_framework_def MCPTestFrameworkAdvanced_def no_options_def or_int_def
        attempt_body_def createTransport_def stdio_config_def no_config_def or_empty_def
        answering_world_def silent_world_def count_attempt_def)

lemma three_custom_runs:
  "suite_runs stdio_config three_custom_tests answering_world =
     [runCustomTest (custom_test ''first'' (Fulfils (JBool True)))]
     @ runCustomTest (custom_test ''second'' (Rejects Thrown_null))
     # [runCustomTest (custom_test ''third'' (Fulfils (JBool True)))]"
  by (simp add: suite_runs_def three_custom_tests_def no_tests_def or_empty_def)

theorem testServer_closes_once_and_aborts_witness:
  "connectToServer default_framework stdio_config (server answering_world) =
     (Inr (0, StdioClientTransport ''node'' [''./server.js''] None), count_attempt default_framework)
   \<and> snd (snd (testServer default_framework stdio_config three_custom_tests answering_world)) = [0]
   \<and> r_status (fst (testServer default_framework stdio_config three_custom_tests answering_world)) = ''failed''
   \<and> map t_name (r_tests (fst (testServer default_framework stdio_config three_custom_tests answering_world)))
       = [''first'']
   \<and> totalTestsRun (metrics (fst (snd (testServer default_framework stdio_config three_custom_tests
                                            answering_world)))) = 2"
proof -
  let ?res = "testServer default_framework stdio_config three_custom_tests answering_world"
  note th = testServer_closes_once_and_aborts [OF connect_stdio_answering, of three_custom_tests]
  have first: "test_of default_framework (runCustomTest (custom_test ''first'' (Fulfils (JBool True)))) =
          Inr \<lparr>t_name = ''first'', t_startTime = 100, t_status = ''passed'',
               t_result = Some (JBool True), t_error = None, t_errorCode = None,
               t_errorDetails = None, t_duration = 30\<rparr>"
    by (simp add: test_of_def runCustomTest_def custom_test_def executeTest_def)
  have second: "test_of default_framework (runCustomTest (custom_test ''second'' (Rejects Thrown_null))) =
          Inl (TypeError ''Cannot read properties of null (reading 'message')'')"
    by (simp add: test_of_def runCustomTest_def custom_test_def executeTest_def catch_clause_def)
  have pre: "\<forall>x \<in> set [runCustomTest (custom_test ''first'' (Fulfils (JBool True)))].
               \<exists>t. test_of default_framework x = Inr t"
    using first by simp
  from th [THEN conjunct2, THEN spec, THEN spec, THEN spec, THEN spec, THEN mp, THEN mp, THEN mp,
           OF three_custom_runs pre second]
  have a: "r_status (fst ?res) = ''failed''"
    and b: "map Inr (r_tests (fst ?res)) =
            map (test_of default_framework) [runCustomTest (custom_test ''first'' (Fulfils (JBool True)))]"
    and c: "totalTestsRun (metrics (fst (snd ?res))) =
            totalTestsRun (metrics default_framework) + length [runCustomTest (custom_test ''first'' (Fulfils (JBool True)))] + 1"
    by blast+
  from b first have "map t_name (r_tests (fst ?res)) = [''first'']"
    by (cases "r_tests (fst ?res)") auto
  moreover have "totalTestsRun (metrics (fst (snd ?res))) = 2"
    using c by (simp add: default_framework_def MCPTestFrameworkAdvanced_def)
  ultimately show ?thesis
    using th [THEN conjunct1] a connect_stdio_answering by simp
qed

section \<open>Properties of the report\<close>

lemma test_of_status:
  "test_of fw r = Inr t \<Longrightarrow> t_status t = ''passed'' \<or> t_status t = ''failed''"
  unfolding test_of_def by (rule executeTest_status)

lemma run_tests_keeps:
  "run_tests fw acc rs = (e, collected, fw') \<Longrightarrow>
   options fw' = options fw \<and> results fw' = results fw
   \<and> connectionAttempts (metrics fw') = connectionAttempts (metrics fw)"
proof (induction rs arbitrary: fw acc)
  case Nil
  then show ?case by simp
next
  case (Cons r rs)
  show ?case
  proof (cases "test_of fw r")
    case (Inl x)
    with Cons.prems show ?thesis
      by (simp only: run_tests_step sum.case) auto
  next
    case (Inr t)
    with Cons.prems have "run_tests (ran [r] fw) (acc @ [t]) rs = (e, collected, fw')"
      by (simp only: run_tests_step sum.case)
    from Cons.IH [OF this] show ?thesis by simp
  qed
qed

lemma run_tests_status:
  "run_tests fw acc rs = (e, collected, fw') \<Longrightarrow>
   \<forall>t \<in> set acc. t_status t = ''passed'' \<or> t_status t = ''failed'' \<Longrightarrow>
   \<forall>t \<in> set collected. t_status t = ''passed'' \<or> t_status t = ''failed''"
proof (induction rs arbitrary: fw acc)
  case Nil
  then show ?case by simp
next
  case (Cons r rs)
  show ?case
  proof (cases "test_of fw r")
    case (Inl x)
    with Cons.prems show ?thesis
      by (simp only: run_tests_step sum.case) auto
  next
    case (Inr t)
    with Cons.prems(1) have rt: "run_tests (ran [r] fw) (acc @ [t]) rs = (e, collected, fw')"
      by (simp only: run_tests_step sum.case)
    have "\<forall>t \<in> set (acc @ [t]). t_status t = ''passed'' \<or> t_status t = ''failed''"
      using Cons.prems(2) test_of_status [OF Inr] by auto
    from Cons.IH [OF rt this] show ?thesis .
  qed
qed

lemma testServer_cases:
  obtains (refused) e fw1 where "connectToServer fw cfg (server w) = (Inl e, fw1)"
      and "testServer fw cfg ts w = finish fw1 cfg ts w [] (Some e) None"
  | (connected) client tp fw1 err collected fw2 where
      "connectToServer fw cfg (server w) = (Inr (client, tp), fw1)"
      and "run_tests fw1 [] (suite_runs cfg ts w) = (err, collected, fw2)"
      and "testServer fw cfg ts w = finish fw2 cfg ts w collected err (Some client)"
proof (cases "connectToServer fw cfg (server w)")
  case (Pair x fw1)
  show ?thesis
  proof (cases x)
    case (Inl e)
    with Pair show ?thesis by (intro refused [of e fw1]) (simp_all add: testServer_def)
  next
    case (Inr s)
    obtain client tp where s: "s = (client, tp)" by (cases s)
    obtain err collected fw2 where
      rt: "run_tests fw1 [] (suite_runs cfg ts w) = (err, collected, fw2)"
      by (cases "run_tests fw1 [] (suite_runs cfg ts w)") auto
    show ?thesis
      using Pair Inr s rt by (intro connected [of client tp fw1 err collected fw2]) (simp_all add: testServer_def)
  qed
qed

lemma testServer_well_formed: "well_formed (fst (testServer fw cfg ts w))"
proof (cases rule: testServer_cases [of fw cfg w ts])
  case (refused e fw1)
  then show ?thesis by (simp add: well_formed_def)
next
  case (connected client tp fw1 err collected fw2)
  from run_tests_status [OF connected(2)] show ?thesis
    by (simp add: connected(3) well_formed_def list_all_iff)
qed

lemma testServer_results:
  "results (fst (snd (testServer fw cfg ts w))) = results fw @ [fst (testServer fw cfg ts w)]"
proof (cases rule: testServer_cases [of fw cfg w ts])
  case (refused e fw1)
  then show ?thesis by (simp add: connectToServer_keeps(2) [OF refused(1)])
next
  case (connected client tp fw1 err collected fw2)
  from run_tests_keeps [OF connected(2)] connectToServer_keeps(2) [OF connected(1)]
  show ?thesis by (simp add: connected(3))
qed

lemma reachable_well_formed: "reachable fw \<Longrightarrow> list_all well_formed (results fw)"
proof (induction rule: reachable.induct)
  case (fresh opts now)
  then show ?case by (simp add: MCPTestFrameworkAdvanced_def)
next
  case (step fw transportConfig ts w)
  then show ?case by (simp add: testServer_results testServer_well_formed)
qed

lemma length_two_filters:
  "\<forall>x \<in> set xs. P x \<noteq> Q x \<Longrightarrow> length xs = length (filter P xs) + length (filter Q xs)"
  by (induction xs) auto

lemma fold_add: "fold (\<lambda>r acc. acc + f r) xs (a::nat) = a + sum_list (map f xs)"
  by (induction xs arbitrary: a) simp_all

lemma sum_list_split:
  "\<forall>x \<in> set xs. f x = g x + (h x :: nat) \<Longrightarrow>
   sum_list (map f xs) = sum_list (map g xs) + sum_list (map h xs)"
  by (induction xs) simp_all

lemma tally_balanced:
  "ts_total s = ts_passed s + ts_failed s \<Longrightarrow>
   ts_total (tally r s) = ts_passed (tally r s) + ts_failed (tally r s)"
  by (simp add: tally_def)

lemma summary_step_balanced:
  assumes "\<forall>x \<in> set summ. ts_total (snd x) = ts_passed (snd x) + ts_failed (snd x)"
  shows "\<forall>x \<in> set (summary_step r summ). ts_total (snd x) = ts_passed (snd x) + ts_failed (snd x)"
proof (cases "map_of summ (toString (opt_str (r_transport r)))")
  case None
  with assms show ?thesis
    by (auto simp: summary_step_def Let_def tally_def)
next
  case (Some s)
  have "ts_total (snd y) = ts_passed (snd y) + ts_failed (snd y)"
    if "y \<in> set (map (\<lambda>(k, v). if k = toString (opt_str (r_transport r)) then (k, tally r v) else (k, v)) summ)"
    for y
  proof -
    from that obtain k v where kv: "(k, v) \<in> set summ"
      and y: "y = (if k = toString (opt_str (r_transport r)) then (k, tally r v) else (k, v))"
      by auto
    from assms kv have "ts_total v = ts_passed v + ts_failed v" by auto
    with y show ?thesis by (auto simp: tally_balanced)
  qed
  with Some show ?thesis
    by (simp add: summary_step_def Let_def)
qed

lemma fold_summary_step_balanced:
  "\<forall>x \<in> set summ. ts_total (snd x) = ts_passed (snd x) + ts_failed (snd x) \<Longrightarrow>
   \<forall>x \<in> set (fold summary_step rs summ). ts_total (snd x) = ts_passed (snd x) + ts_failed (snd x)"
proof (induction rs arbitrary: summ)
  case Nil
  then show ?case by simp
next
  case (Cons r rs)
  from Cons.IH [OF summary_step_balanced [OF Cons.prems]] show ?case by simp
qed

lemma getTransportSummary_balanced:
  "\<forall>(k, s) \<in> set (getTransportSummary fw). ts_total s = ts_passed s + ts_failed s"
proof -
  have "\<forall>x \<in> set (getTransportSummary fw). ts_total (snd x) = ts_passed (snd x) + ts_failed (snd x)"
    unfolding getTransportSummary_def by (rule fold_summary_step_balanced) simp
  then show ?thesis by auto
qed

text \<open>
  C10. In every state a framework object reaches by calls of \<^verbatim>\<open>testServer\<close>, each recorded
  suite result and each recorded test result has the status \<^verbatim>\<open>passed\<close> or \<^verbatim>\<open>failed\<close>,
  and the summary of the report generated there satisfies totalTests = passedTests +
  failedTests, total = passed + failed, and total = passed + failed for every transport
  in byTransport.
\<close>

theorem report_counts_add_up:
  assumes "reachable fw"
  shows "(\<forall>r \<in> set (results fw).
            (r_status r = ''passed'' \<or> r_status r = ''failed'')
            \<and> (\<forall>t \<in> set (r_tests r). t_status t = ''passed'' \<or> t_status t = ''failed''))
       \<and> totalTests (rp_summary (generateReport fw stmp now)) =
           passedTests (rp_summary (generateReport fw stmp now))
           + failedTests (rp_summary (generateReport fw stmp now))
       \<and> total (rp_summary (generateReport fw stmp now)) =
           passed (rp_summary (generateReport fw stmp now))
           + failed (rp_summary (generateReport fw stmp now))
       \<and> (\<forall>(k, s) \<in> set (byTransport (rp_summary (generateReport fw stmp now))).
             ts_total s = ts_passed s + ts_failed s)"
proof -
  from reachable_well_formed [OF assms]
  have wf: "\<forall>r \<in> set (results fw).
            (r_status r = ''passed'' \<or> r_status r = ''failed'')
            \<and> (\<forall>t \<in> set (r_tests r). t_status t = ''passed'' \<or> t_status t = ''failed'')"
    by (simp add: list_all_iff well_formed_def)
  have suites: "length (results fw) =
          length (filter (\<lambda>r. r_status r = ''passed'') (results fw))
          + length (filter (\<lambda>r. r_status r = ''failed'') (results fw))"
    by (rule length_two_filters) (use wf in auto)
  have each: "\<forall>r \<in> set (results fw).
          length (r_tests r) =
            length (filter (\<lambda>t. t_status t = ''passed'') (r_tests r))
            + length (filter (\<lambda>t. t_status t = ''failed'') (r_tests r))"
  proof
    fix r assume "r \<in> set (results fw)"
    with wf have "\<forall>t \<in> set (r_tests r). (t_status t = ''passed'') \<noteq> (t_status t = ''failed'')"
      by auto
    then show "length (r_tests r) =
            length (filter (\<lambda>t. t_status t = ''passed'') (r_tests r))
            + length (filter (\<lambda>t. t_status t = ''failed'') (r_tests r))"
      by (rule length_two_filters)
  qed
  have tests: "totalTests (rp_summary (generateReport fw stmp now)) =
           passedTests (rp_summary (generateReport fw stmp now))
           + failedTests (rp_summary (generateReport fw stmp now))"
    using sum_list_split [OF each] by (simp add: generateReport_def fold_add)
  have "total (rp_summary (generateReport fw stmp now)) =
           passed (rp_summary (generateReport fw stmp now))
           + failed (rp_summary (generateReport fw stmp now))"
    using suites by (simp add: generateReport_def)
  moreover have "\<forall>(k, s) \<in> set (byTransport (rp_summary (generateReport fw stmp now))).
             ts_total s = ts_passed s + ts_failed s"
    using getTransportSummary_balanced [of fw] by (simp add: generateReport_def)
  ultimately show ?thesis
    using wf tests by blast
qed


lemma three_custom_tests_run:
  "run_tests (count_attempt default_framework) []
     (suite_runs stdio_config three_custom_tests answering_world) =
     (Some (TypeError ''Cannot read properties of null (reading 'message')''),
      [\<lparr>t_name = ''first'', t_startTime = 100, t_status = ''passed'',
        t_result = Some (JBool True), t_error = None, t_errorCode = None,
        t_errorDetails = None, t_duration = 30\<rparr>],
      ran [runCustomTest (custom_test ''first'' (Fulfils (JBool True))), runCustomTest (custom_test ''second'' (Rejects Thrown_null))]
        (count_attempt default_framework))"
proof -
  have first: "test_of (count_attempt default_framework) (runCustomTest (custom_test ''first'' (Fulfils (JBool True)))) =
          Inr \<lparr>t_name = ''first'', t_startTime = 100, t_status = ''passed'',
               t_result = Some (JBool True), t_error = None, t_errorCode = None,
               t_errorDetails = None, t_duration = 30\<rparr>"
    by (simp add: test_of_def runCustomTest_def custom_test_def executeTest_def)
  have second: "test_of f (runCustomTest (custom_test ''second'' (Rejects Thrown_null))) =
          Inl (TypeError ''Cannot read properties of null (reading 'message')'')" for f
    by (simp add: test_of_def runCustomTest_def custom_test_def executeTest_def catch_clause_def)
  show ?thesis
    by (simp only: three_custom_runs append_Cons append_Nil run_tests_step first second sum.case
          ran_append [symmetric])
qed

lemma three_custom_tests_suite:
  "testServer default_framework stdio_config three_custom_tests answering_world =
     finish (ran [runCustomTest (custom_test ''first'' (Fulfils (JBool True))),
                  runCustomTest (custom_test ''second'' (Rejects Thrown_null))]
               (count_attempt default_framework))
       stdio_config three_custom_tests answering_world
       [\<lparr>t_name = ''first'', t_startTime = 100, t_status = ''passed'',
         t_result = Some (JBool True), t_error = None, t_errorCode = None,
         t_errorDetails = None, t_duration = 30\<rparr>]
       (Some (TypeError ''Cannot read properties of null (reading 'message')''))
       (Some 0)"
  by (rule testServer_connected [OF connect_stdio_answering three_custom_tests_run])

theorem report_counts_add_up_witness:
  "reachable (fst (snd (testServer default_framework stdio_config three_custom_tests answering_world)))
   \<and> rp_summary (generateReport
        (fst (snd (testServer default_framework stdio_config three_custom_tests answering_world))) 0 0) =
       \<lparr>total = 1, passed = 0, failed = 1,
        byTransport = [(''stdio'', \<lparr>ts_total = 1, ts_passed = 0, ts_failed = 1\<rparr>)],
        totalTests = 1, passedTests = 1, failedTests = 0\<rparr>"
proof -
  let ?fw = "fst (snd (testServer default_framework stdio_config three_custom_tests answering_world))"
  let ?s = "rp_summary (generateReport ?fw 0 0)"
  have reach: "reachable ?fw"
    unfolding default_framework_def by (intro reachable.intros)
  note th = report_counts_add_up [OF reach, of 0 0]
  have d: "results default_framework = []"
    by (simp add: default_framework_def MCPTestFrameworkAdvanced_def)
  have res: "results ?fw =
               [fst (testServer default_framework stdio_config three_custom_tests answering_world)]"
    by (simp add: testServer_results d)
  have p: "passed ?s = 0" and f: "failed ?s = 1"
    by (simp_all add: generateReport_def res three_custom_tests_suite d)
  have pt: "passedTests ?s = 1" and ft: "failedTests ?s = 0"
    by (simp_all add: generateReport_def res three_custom_tests_suite d)
  have ty: "c_type stdio_config = Some ''stdio''"
    by (simp add: stdio_config_def no_config_def)
  have bt: "byTransport ?s = [(''stdio'', \<lparr>ts_total = 1, ts_passed = 0, ts_failed = 1\<rparr>)]"
    by (simp add: generateReport_def getTransportSummary_def res three_custom_tests_suite
          summary_step_def tally_def ty opt_str_def object_prototype_def d)
  have t: "total ?s = 1"
    using th p f by simp
  have tt: "totalTests ?s = 1"
    using th pt ft by simp
  have "?s = \<lparr>total = total ?s, passed = passed ?s, failed = failed ?s,
              byTransport = byTransport ?s, totalTests = totalTests ?s,
              passedTests = passedTests ?s, failedTests = failedTests ?s\<rparr>"
    by simp
  with reach t p f bt tt pt ft show ?thesis
    by simp
qed

section \<open>Properties of the discovery phase\<close>

lemma discovery_rejection_fails:
  "fst (executeTest fw ''List Resources'' (listResources_fn (Throws e) ms) clk) =
     Inr \<lparr>t_name = ''List Resources'', t_startTime = stamp clk, t_status = ''failed'',
          t_result = None, t_error = e_message e, t_errorCode = e_code e,
          t_errorDetails = e_details e, t_duration = finished clk - started clk\<rparr>
   \<and> fst (executeTest fw ''List Prompts'' (listPrompts_fn (Throws e) ms) clk) =
     Inr \<lparr>t_name = ''List Prompts'', t_startTime = stamp clk, t_status = ''failed'',
          t_result = None, t_error = e_message e, t_errorCode = e_code e,
          t_errorDetails = e_details e, t_duration = finished clk - started clk\<rparr>"
  by (simp add: executeTest_def listResources_fn_def listPrompts_fn_def catch_clause_def)

lemma discovery_v1_method_not_found:
  assumes "e_message e = Some m" and "str_includes m ''Method not found''"
  shows "executeTest_v1 ''List Resources'' (listResources_fn_v1 (Throws e)) clk =
     Inr \<lparr>t_name = ''List Resources'', t_startTime = stamp clk, t_status = ''passed'',
          t_result = Some (JObj [(''count'', JNum 0), (''resources'', JArr []),
                                 (''note'', JStr ''Server does not support resources'')]),
          t_error = None, t_errorCode = None, t_errorDetails = None,
          t_duration = finished clk - started clk\<rparr>"
    and "executeTest_v1 ''List Prompts'' (listPrompts_fn_v1 (Throws e)) clk =
     Inr \<lparr>t_name = ''List Prompts'', t_startTime = stamp clk, t_status = ''passed'',
          t_result = Some (JObj [(''count'', JNum 0), (''prompts'', JArr []),
                                 (''note'', JStr ''Server does not support prompts'')]),
          t_error = None, t_errorCode = None, t_errorDetails = None,
          t_duration = finished clk - started clk\<rparr>"
  using assms
  by (simp_all add: executeTest_v1_def listResources_fn_v1_def listPrompts_fn_v1_def
        method_not_found_v1_def)

lemma discovery_v1_other_error:
  assumes "e_message e = Some m" and "\<not> str_includes m ''Method not found''"
  shows "executeTest_v1 ''List Resources'' (listResources_fn_v1 (Throws e)) clk =
     Inr \<lparr>t_name = ''List Resources'', t_startTime = stamp clk, t_status = ''failed'',
          t_result = None, t_error = Some m, t_errorCode = None, t_errorDetails = None,
          t_duration = finished clk - started clk\<rparr>"
    and "executeTest_v1 ''List Prompts'' (listPrompts_fn_v1 (Throws e)) clk =
     Inr \<lparr>t_name = ''List Prompts'', t_startTime = stamp clk, t_status = ''failed'',
          t_result = None, t_error = Some m, t_errorCode = None, t_errorDetails = None,
          t_duration = finished clk - started clk\<rparr>"
  using assms
  by (simp_all add: executeTest_v1_def listResources_fn_v1_def listPrompts_fn_v1_def
        method_not_found_v1_def)

lemma method_not_found_message:
  "e_message method_not_found = Some ''MCP error -32601: Method not found''"
  "e_code method_not_found = None" "e_details method_not_found = None"
  "str_includes ''MCP error -32601: Method not found'' ''Method not found''"
  by (simp_all add: method_not_found_def Error_def)

lemma discovery_v1_method_not_found_passes:
  "map (\<lambda>t. (t_name t, t_status t, t_result t))
     (snd (runDiscoveryTests_v1 [] tools_only_world)) =
     [(''List Tools'', ''passed'', Some (JObj [(''count'', JNum 2)])),
      (''List Resources'', ''passed'',
       Some (JObj [(''count'', JNum 0), (''resources'', JArr []),
                   (''note'', JStr ''Server does not support resources'')])),
      (''List Prompts'', ''passed'',
       Some (JObj [(''count'', JNum 0), (''prompts'', JArr []),
                   (''note'', JStr ''Server does not support prompts'')]))]"
proof -
  have w: "resources_reply tools_only_world = Throws method_not_found"
    "prompts_reply tools_only_world = Throws method_not_found"
    "outcome tools_only_world ''List Tools'' = Fulfils (JObj [(''count'', JNum 2)])"
    by (simp_all add: tools_only_world_def answering_world_def silent_world_def)
  have t1: "executeTest_v1 ''List Tools'' (Fulfils v) clk =
     Inr \<lparr>t_name = ''List Tools'', t_startTime = stamp clk,
          t_status = ''passed'', t_result = Some v, t_error = None,
          t_errorCode = None, t_errorDetails = None,
          t_duration = finished clk - started clk\<rparr>" for v clk
    by (simp add: executeTest_v1_def)
  note t2 = discovery_v1_method_not_found [OF method_not_found_message(1) method_not_found_message(4)]
  show ?thesis
    by (simp add: runDiscoveryTests_v1_def discoveryTests_v1_def w builtin_def t1 t2)
qed

text \<open>
  C1. The first framework does what the claim says: a rejection of \<^verbatim>\<open>listResources\<close> or
  \<^verbatim>\<open>listPrompts\<close> whose message includes "Method not found" is recorded as a passed
  test with count 0, and any other rejection as that test's failure (the lemmas above).
  The second framework, the one the command line runs, awaits the two calls with no
  handler, so there every rejection is the test's failure: against a server with tools
  only, its discovery phase records "List Resources" and "List Prompts" as failed with
  the "Method not found" message.
\<close>

theorem discovery_method_not_found_fails:
  "map (\<lambda>t. (t_name t, t_status t, t_error t))
     (fst (snd (runDiscoveryTests default_framework [] tools_only_world))) =
     [(''List Tools'', ''passed'', None),
      (''List Resources'', ''failed'', Some ''MCP error -32601: Method not found''),
      (''List Prompts'', ''failed'', Some ''MCP error -32601: Method not found'')]"
proof -
  have w: "resources_reply tools_only_world = Throws method_not_found"
    "prompts_reply tools_only_world = Throws method_not_found"
    "outcome tools_only_world ''List Tools'' = Fulfils (JObj [(''count'', JNum 2)])"
    by (simp_all add: tools_only_world_def answering_world_def silent_world_def)
  have t1: "test_of f (builtin tools_only_world ''List Tools'' (Fulfils (JObj [(''count'', JNum 2)]))) =
     Inr \<lparr>t_name = ''List Tools'', t_startTime = stamp (clocks tools_only_world ''List Tools''),
          t_status = ''passed'', t_result = Some (JObj [(''count'', JNum 2)]), t_error = None,
          t_errorCode = None, t_errorDetails = None,
          t_duration = finished (clocks tools_only_world ''List Tools'')
                       - started (clocks tools_only_world ''List Tools'')\<rparr>" for f
    by (simp add: test_of_def builtin_def executeTest_def)
  have t2: "test_of f (builtin tools_only_world ''List Resources''
                 (listResources_fn (Throws method_not_found) ms)) =
     Inr \<lparr>t_name = ''List Resources'', t_startTime = stamp (clocks tools_only_world ''List Resources''),
          t_status = ''failed'', t_result = None,
          t_error = Some ''MCP error -32601: Method not found'', t_errorCode = None,
          t_errorDetails = None,
          t_duration = finished (clocks tools_only_world ''List Resources'')
                       - started (clocks tools_only_world ''List Resources'')\<rparr>" for f ms
    using discovery_rejection_fails [THEN conjunct1, of f method_not_found ms]
    by (simp add: test_of_def builtin_def method_not_found_message)
  have t3: "test_of f (builtin tools_only_world ''List Prompts''
                 (listPrompts_fn (Throws method_not_found) ms)) =
     Inr \<lparr>t_name = ''List Prompts'', t_startTime = stamp (clocks tools_only_world ''List Prompts''),
          t_status = ''failed'', t_result = None,
          t_error = Some ''MCP error -32601: Method not found'', t_errorCode = None,
          t_errorDetails = None,
          t_duration = finished (clocks tools_only_world ''List Prompts'')
                       - started (clocks tools_only_world ''List Prompts'')\<rparr>" for f ms
    using discovery_rejection_fails [THEN conjunct2, of f method_not_found ms]
    by (simp add: test_of_def builtin_def method_not_found_message)
  show ?thesis
    by (simp add: runDiscoveryTests_def discoveryTests_def w run_tests_step t1 t2 t3
          del: run_tests.simps(2))
qed

section \<open>Properties of \<^verbatim>\<open>sanitizeConfig\<close>\<close>

lemma fold_assign:
  assumes "distinct (map fst hs)" and "''__proto__'' \<notin> fst ` set hs"
    and "fst ` set hs \<inter> fst ` set acc = {}"
  shows "fold (\<lambda>(key, v) acc. assign acc key (g key v)) hs acc = acc @ map (\<lambda>(key, v). (key, g key v)) hs"
  using assms
proof (induction hs arbitrary: acc)
  case Nil
  then show ?case by simp
next
  case (Cons h hs)
  obtain k v where h: "h = (k, v)" by (cases h)
  have a: "assign acc k (g k v) = acc @ [(k, g k v)]"
    using Cons.prems h by (auto simp: assign_def)
  have "fst ` set hs \<inter> fst ` set (acc @ [(k, g k v)]) = {}"
    using Cons.prems h by auto
  with Cons.IH [of "acc @ [(k, g k v)]"] Cons.prems h a show ?case
    by simp
qed

lemma safeHeaders_map:
  assumes "distinct (map fst hs)" and "''__proto__'' \<notin> fst ` set hs"
  shows "safeHeaders hs = map (\<lambda>(key, v). (key, if sensitive key then ''[REDACTED]'' else v)) hs"
proof -
  have "safeHeaders hs =
          fold (\<lambda>(key, v) acc. assign acc key (if sensitive key then ''[REDACTED]'' else v)) hs []"
    unfolding safeHeaders_def
    by (rule arg_cong [where f = "\<lambda>f. fold f hs []"]) (auto simp: fun_eq_iff)
  also have "\<dots> = [] @ map (\<lambda>(key, v). (key, if sensitive key then ''[REDACTED]'' else v)) hs"
    using assms by (intro fold_assign) simp_all
  finally show ?thesis by simp
qed

lemma sanitizeConfig_redacts:
  assumes "c_headers config = Some hs" and "distinct (map fst hs)"
    and "''__proto__'' \<notin> fst ` set hs"
  shows "sanitizeConfig config =
           config\<lparr>c_headers := Some (map (\<lambda>(key, v). (key, if sensitive key then ''[REDACTED]'' else v)) hs),
                  c_auth := (if falsy (c_auth config) then c_auth config else Some ''[REDACTED]'')\<rparr>"
  using assms by (simp add: sanitizeConfig_def safeHeaders_map)

lemma sanitizeConfig_no_headers:
  assumes "c_headers config = None"
  shows "sanitizeConfig config =
           config\<lparr>c_auth := (if falsy (c_auth config) then c_auth config else Some ''[REDACTED]'')\<rparr>"
  using assms by (simp add: sanitizeConfig_def)

lemma sanitizeConfig_api_key:
  "c_headers (sanitizeConfig api_key_config) =
     Some [(''X-API-Key'', ''[REDACTED]''), (''Authorization'', ''[REDACTED]'')]"
  by code_simp

text \<open>
  C9. In the second framework the sanitized descriptor has \<^verbatim>\<open>[REDACTED]\<close> for every
  header whose lower-cased key includes "auth", "token" or "key" and for a non-empty
  top-level \<^verbatim>\<open>auth\<close>, and every other header and field as it was (the lemmas above,
  for headers with distinct names other than \<^verbatim>\<open>__proto__\<close>). The first framework's
  \<^verbatim>\<open>sanitizeConfig\<close> tests the key for "auth" only: a descriptor with an
  \<^verbatim>\<open>X-API-Key\<close> header keeps the secret in the sanitized copy that goes into the
  results.
\<close>

theorem sanitizeConfig_v1_keeps_api_key:
  "c_headers (sanitizeConfig_v1 api_key_config) =
     Some [(''X-API-Key'', ''secret''), (''Authorization'', ''***'')]"
  by code_simp

section \<open>Properties of schema validation\<close>






lemma suggestion_rest [simp]: "suggestion f (p\<lparr>ps_rest := r\<rparr>) = suggestion f p"
  by (simp add: suggestion_def split: option.splits)














text \<open>
  A required field whose name every object inherits, such as \<^verbatim>\<open>constructor\<close>, is
  \<^verbatim>\<open>in\<close> the arguments whether or not it was supplied, and is never reported.
\<close>

lemma inherited_name_not_reported:
  "validateAgainstSchema []
     \<lparr>sc_required = Some [''constructor''],
      sc_properties = Some [(''constructor'', \<lparr>ps_enum = None, ps_type = Some ''string'',
                                               ps_description = None, ps_rest = []\<rparr>)],
      sc_rest = []\<rparr> =
     \<lparr>valid = True, errors = [], suggestions = []\<rparr>"
  by (simp add: validateAgainstSchema_def check_required_def check_enum_def in_op_def
        object_prototype_def)


end
